theory Spec2Isabelle
  imports Main "HOL-Library.Word"
begin

unbundle bit_operations_syntax

section \<open>The MIDI message format registry (midi/message\_format.c)\<close>

subsection \<open>Machine types and memory\<close>

text \<open>
  \<open>uint8_t\<close> is an 8-bit word and \<open>size_t\<close> a 64-bit word, so that \<open>size + 2\<close> and
  \<open>size - 2\<close> wrap as they do in C. A pointer is an address, \<open>0\<close> being \<open>NULL\<close>. The heap
  maps the base address of every allocated block to its bytes; \<open>free\<close> removes the block.
  A nullable pointer argument to a struct or to a buffer is an \<open>option\<close> of what it points
  to. A buffer is the list of the bytes that start at the pointer; the byte count the caller
  passes along with it is a separate argument, as in the source.
\<close>

type_synonym byte = "8 word"
type_synonym size_t = "64 word"
type_synonym addr = nat
type_synonym heap = "addr \<rightharpoonup> byte list"

definition free :: "heap \<Rightarrow> addr \<Rightarrow> heap" where
  "free h p = h(p := None)"

text \<open>\<open>memcpy( dst + off, src, n )\<close> on a buffer held as a list.\<close>

definition memcpy_at :: "byte list \<Rightarrow> nat \<Rightarrow> byte list \<Rightarrow> byte list" where
  "memcpy_at dst off src = take off dst @ src @ drop (off + length src) dst"

text \<open>
  The \<open>n\<close> bytes that start at address \<open>p\<close>. A read past the end of the block, or of an
  address that is not allocated, is undefined in C; here it yields the bytes there are, and
  the properties below say when the block holds the bytes that are read.
\<close>

definition memread :: "heap \<Rightarrow> addr \<Rightarrow> nat \<Rightarrow> byte list" where
  "memread h p n = (case h p of None \<Rightarrow> [] | Some blk \<Rightarrow> take n blk)"

text \<open>
  \<open>struct MIDIMessageData\<close>: four header bytes, the payload size and the payload pointer
  (the last two are used by system exclusive messages only).
\<close>

record MIDIMessageData =
  bytes :: "byte list"
  size_d :: size_t
  data :: addr

subsection \<open>Constants of midi.h\<close>

text \<open>
  Modelled from the spec: midi.h is not among the sources. The status values are those of the
  variant table of the spec (channel voice statuses are nibbles \<open>0x8\<close> .. \<open>0xE\<close>, system
  statuses full bytes \<open>0xF0\<close> .. \<open>0xFF\<close>; \<open>0xF9\<close> and \<open>0xFD\<close> are the two undefined
  real-time values).
\<close>

definition MIDI_STATUS_NOTE_OFF :: int where "MIDI_STATUS_NOTE_OFF = 0x8"
definition MIDI_STATUS_NOTE_ON :: int where "MIDI_STATUS_NOTE_ON = 0x9"
definition MIDI_STATUS_POLYPHONIC_KEY_PRESSURE :: int where "MIDI_STATUS_POLYPHONIC_KEY_PRESSURE = 0xa"
definition MIDI_STATUS_CONTROL_CHANGE :: int where "MIDI_STATUS_CONTROL_CHANGE = 0xb"
definition MIDI_STATUS_PROGRAM_CHANGE :: int where "MIDI_STATUS_PROGRAM_CHANGE = 0xc"
definition MIDI_STATUS_CHANNEL_PRESSURE :: int where "MIDI_STATUS_CHANNEL_PRESSURE = 0xd"
definition MIDI_STATUS_PITCH_WHEEL_CHANGE :: int where "MIDI_STATUS_PITCH_WHEEL_CHANGE = 0xe"
definition MIDI_STATUS_SYSTEM_EXCLUSIVE :: int where "MIDI_STATUS_SYSTEM_EXCLUSIVE = 0xf0"
definition MIDI_STATUS_TIME_CODE_QUARTER_FRAME :: int where "MIDI_STATUS_TIME_CODE_QUARTER_FRAME = 0xf1"
definition MIDI_STATUS_SONG_POSITION_POINTER :: int where "MIDI_STATUS_SONG_POSITION_POINTER = 0xf2"
definition MIDI_STATUS_SONG_SELECT :: int where "MIDI_STATUS_SONG_SELECT = 0xf3"
definition MIDI_STATUS_TUNE_REQUEST :: int where "MIDI_STATUS_TUNE_REQUEST = 0xf6"
definition MIDI_STATUS_TIMING_CLOCK :: int where "MIDI_STATUS_TIMING_CLOCK = 0xf8"
definition MIDI_STATUS_UNDEFINED2 :: int where "MIDI_STATUS_UNDEFINED2 = 0xf9"
definition MIDI_STATUS_UNDEFINED3 :: int where "MIDI_STATUS_UNDEFINED3 = 0xfd"
definition MIDI_STATUS_RESET :: int where "MIDI_STATUS_RESET = 0xff"

text \<open>
  Modelled from the spec: the property keys of midi.h, the enumerated key set of the spec.
  \<open>MIDI_OTHER\<close> stands for every other integer a caller may pass.
\<close>

datatype MIDIProperty =
    MIDI_STATUS | MIDI_CHANNEL | MIDI_KEY | MIDI_VELOCITY | MIDI_PRESSURE | MIDI_CONTROL
  | MIDI_VALUE | MIDI_VALUE_MSB | MIDI_VALUE_LSB | MIDI_PROGRAM | MIDI_MANUFACTURER_ID
  | MIDI_SYSEX_SIZE | MIDI_SYSEX_FRAGMENT | MIDI_SYSEX_DATA | MIDI_TIME_CODE_TYPE
  | MIDI_OTHER nat

text \<open>
  Modelled from the spec: the nibble and 7-bit packing macros of midi.h. They work on the
  promoted \<open>int\<close>; the store into a \<open>uint8_t\<close> field truncates.
\<close>

definition MIDI_NIBBLE_VALUE :: "int \<Rightarrow> int \<Rightarrow> int" where
  "MIDI_NIBBLE_VALUE h l = (push_bit 4 h) OR (l AND 0xf)"

definition MIDI_HIGH_NIBBLE :: "int \<Rightarrow> int" where
  "MIDI_HIGH_NIBBLE b = (drop_bit 4 b) AND 0xf"

definition MIDI_LOW_NIBBLE :: "int \<Rightarrow> int" where
  "MIDI_LOW_NIBBLE b = b AND 0xf"

definition MIDI_LSB :: "int \<Rightarrow> int" where
  "MIDI_LSB v = v AND 0x7f"

definition MIDI_MSB :: "int \<Rightarrow> int" where
  "MIDI_MSB v = (drop_bit 7 v) AND 0x7f"

text \<open>
  Modelled from the spec: the widths of the value types of midi.h (\<open>sizeof\<close>); status and
  data values are one byte wide, a long value two, \<open>size_t\<close> and pointers eight.
\<close>

definition sizeof_MIDIStatus :: size_t where "sizeof_MIDIStatus = 1"
definition sizeof_MIDIChannel :: size_t where "sizeof_MIDIChannel = 1"
definition sizeof_MIDIKey :: size_t where "sizeof_MIDIKey = 1"
definition sizeof_MIDIVelocity :: size_t where "sizeof_MIDIVelocity = 1"
definition sizeof_MIDIPressure :: size_t where "sizeof_MIDIPressure = 1"
definition sizeof_MIDIControl :: size_t where "sizeof_MIDIControl = 1"
definition sizeof_MIDIValue :: size_t where "sizeof_MIDIValue = 1"
definition sizeof_MIDIProgram :: size_t where "sizeof_MIDIProgram = 1"
definition sizeof_MIDIManufacturerId :: size_t where "sizeof_MIDIManufacturerId = 1"
definition sizeof_MIDILongValue :: size_t where "sizeof_MIDILongValue = 2"
definition sizeof_uint8_t :: size_t where "sizeof_uint8_t = 1"
definition sizeof_size_t :: size_t where "sizeof_size_t = 8"
definition sizeof_voidpp :: size_t where "sizeof_voidpp = 8"

subsection \<open>Encoding and decoding\<close>

text \<open>
  Every encoder returns the status and the buffer as it leaves it; every decoder the status
  and the message data as it leaves it. \<open>VOID_BYTE(buffer,n)\<close> is \<open>buffer ! n\<close>.
\<close>

definition encode_one_byte ::
  "MIDIMessageData option \<Rightarrow> size_t \<Rightarrow> byte list option \<Rightarrow> int \<times> byte list option" where
  "encode_one_byte d sz buffer =
     (case d of None \<Rightarrow> (1, buffer) | Some m \<Rightarrow>
      (case buffer of None \<Rightarrow> (1, buffer) | Some b \<Rightarrow>
        if sz < 1 then (1, buffer)
        else (0, Some (b[0 := bytes m ! 0]))))"

definition decode_one_byte ::
  "MIDIMessageData option \<Rightarrow> size_t \<Rightarrow> byte list option \<Rightarrow> int \<times> MIDIMessageData option" where
  "decode_one_byte d sz buffer =
     (case d of None \<Rightarrow> (1, d) | Some m \<Rightarrow>
      (case buffer of None \<Rightarrow> (1, d) | Some b \<Rightarrow>
        if sz < 1 then (1, d)
        else (0, Some (m\<lparr>bytes := (bytes m)[0 := b ! 0]\<rparr>))))"

definition encode_two_bytes ::
  "MIDIMessageData option \<Rightarrow> size_t \<Rightarrow> byte list option \<Rightarrow> int \<times> byte list option" where
  "encode_two_bytes d sz buffer =
     (case d of None \<Rightarrow> (1, buffer) | Some m \<Rightarrow>
      (case buffer of None \<Rightarrow> (1, buffer) | Some b \<Rightarrow>
        if sz < 2 then (1, buffer)
        else (0, Some (b[0 := bytes m ! 0, 1 := bytes m ! 1]))))"

definition decode_two_bytes ::
  "MIDIMessageData option \<Rightarrow> size_t \<Rightarrow> byte list option \<Rightarrow> int \<times> MIDIMessageData option" where
  "decode_two_bytes d sz buffer =
     (case d of None \<Rightarrow> (1, d) | Some m \<Rightarrow>
      (case buffer of None \<Rightarrow> (1, d) | Some b \<Rightarrow>
        if sz < 2 then (1, d)
        else (0, Some (m\<lparr>bytes := (bytes m)[0 := b ! 0, 1 := b ! 1]\<rparr>))))"

definition encode_three_bytes ::
  "MIDIMessageData option \<Rightarrow> size_t \<Rightarrow> byte list option \<Rightarrow> int \<times> byte list option" where
  "encode_three_bytes d sz buffer =
     (case d of None \<Rightarrow> (1, buffer) | Some m \<Rightarrow>
      (case buffer of None \<Rightarrow> (1, buffer) | Some b \<Rightarrow>
        if sz < 3 then (1, buffer)
        else (0, Some (b[0 := bytes m ! 0, 1 := bytes m ! 1, 2 := bytes m ! 2]))))"

definition decode_three_bytes ::
  "MIDIMessageData option \<Rightarrow> size_t \<Rightarrow> byte list option \<Rightarrow> int \<times> MIDIMessageData option" where
  "decode_three_bytes d sz buffer =
     (case d of None \<Rightarrow> (1, d) | Some m \<Rightarrow>
      (case buffer of None \<Rightarrow> (1, d) | Some b \<Rightarrow>
        if sz < 3 then (1, d)
        else (0, Some (m\<lparr>bytes := (bytes m)[0 := b ! 0, 1 := b ! 1, 2 := b ! 2]\<rparr>))))"

text \<open>
  The system exclusive encoder reads the payload through the heap. A first fragment
  (\<open>bytes[2] == 0\<close>) is written as status, manufacturer id and payload, any other fragment as
  the payload alone.
\<close>

definition encode_system_exclusive ::
  "heap \<Rightarrow> MIDIMessageData option \<Rightarrow> size_t \<Rightarrow> byte list option \<Rightarrow> int \<times> byte list option" where
  "encode_system_exclusive h d sz buffer =
     (case d of None \<Rightarrow> (1, buffer) | Some m \<Rightarrow>
      (case buffer of None \<Rightarrow> (1, buffer) | Some b \<Rightarrow>
        if bytes m ! 2 = 0 then
          if sz < size_d m + 2 then (1, buffer)
          else
            let b1 = b[0 := bytes m ! 0, 1 := bytes m ! 1]
            in if size_d m > 0 \<and> data m \<noteq> 0
               then (0, Some (memcpy_at b1 2 (memread h (data m) (unat (size_d m)))))
               else (0, Some b1)
        else
          if sz < size_d m then (1, buffer)
          else if size_d m > 0 \<and> data m \<noteq> 0
               then (0, Some (memcpy_at b 0 (memread h (data m) (unat (size_d m)))))
               else (0, Some b)))"

text \<open>
  The system exclusive decoder allocates: \<open>p\<close> is the pointer \<open>malloc( size-2 )\<close> returns,
  \<open>0\<close> when the allocation fails. The source does not test it, so copying a non-empty
  payload to \<open>NULL\<close> is a crash, the result \<open>None\<close>. The previous payload pointer of the
  message is overwritten, not freed.
\<close>

definition decode_system_exclusive ::
  "heap \<Rightarrow> addr \<Rightarrow> MIDIMessageData option \<Rightarrow> size_t \<Rightarrow> byte list option
     \<Rightarrow> (int \<times> MIDIMessageData option \<times> heap) option" where
  "decode_system_exclusive h p d sz buffer =
     (case d of None \<Rightarrow> Some (1, d, h) | Some m \<Rightarrow>
      (case buffer of None \<Rightarrow> Some (1, d, h) | Some b \<Rightarrow>
        let m1 = m\<lparr>bytes := (bytes m)[0 := b ! 0, 1 := b ! 1, 2 := 0, 3 := 1]\<rparr>;
            payload = take (unat (sz - 2)) (drop 2 b)
        in if p = 0 then
             (if sz - 2 = 0 then Some (0, Some (m1\<lparr>data := 0, size_d := sz - 2\<rparr>), h)
              else None)
           else Some (0, Some (m1\<lparr>data := p, size_d := sz - 2\<rparr>), h(p \<mapsto> payload))))"

subsection \<open>Message size determination\<close>

text \<open>
  The second argument is the cell the \<open>size_t *\<close> points to (\<open>None\<close> for a \<open>NULL\<close>
  pointer); the cell is returned as the function leaves it.
\<close>

definition size_one_byte :: "MIDIMessageData option \<Rightarrow> size_t option \<Rightarrow> int \<times> size_t option" where
  "size_one_byte d sz = (if d = None \<or> sz = None then (1, sz) else (0, Some 1))"

definition size_two_bytes :: "MIDIMessageData option \<Rightarrow> size_t option \<Rightarrow> int \<times> size_t option" where
  "size_two_bytes d sz = (if d = None \<or> sz = None then (1, sz) else (0, Some 2))"

definition size_three_bytes :: "MIDIMessageData option \<Rightarrow> size_t option \<Rightarrow> int \<times> size_t option" where
  "size_three_bytes d sz = (if d = None \<or> sz = None then (1, sz) else (0, Some 3))"

definition size_system_exclusive ::
  "MIDIMessageData option \<Rightarrow> size_t option \<Rightarrow> int \<times> size_t option" where
  "size_system_exclusive d sz =
     (case d of None \<Rightarrow> (1, sz) | Some m \<Rightarrow>
      (case sz of None \<Rightarrow> (1, sz) | Some _ \<Rightarrow>
        if bytes m ! 2 = 0 then (0, Some (size_d m + 2))
        else (0, Some (size_d m))))"

subsection \<open>Message format detectors\<close>

text \<open>A detector looks at the first byte of the buffer, promoted to \<open>int\<close>.\<close>

definition test_note_off_on :: "byte list \<Rightarrow> bool" where
  "test_note_off_on buffer \<longleftrightarrow>
     (uint (buffer ! 0) AND 0xf0) = push_bit 4 MIDI_STATUS_NOTE_OFF
   \<or> (uint (buffer ! 0) AND 0xf0) = push_bit 4 MIDI_STATUS_NOTE_ON"

definition test_polyphonic_key_pressure :: "byte list \<Rightarrow> bool" where
  "test_polyphonic_key_pressure buffer \<longleftrightarrow>
     (uint (buffer ! 0) AND 0xf0) = push_bit 4 MIDI_STATUS_POLYPHONIC_KEY_PRESSURE"

definition test_control_change :: "byte list \<Rightarrow> bool" where
  "test_control_change buffer \<longleftrightarrow>
     (uint (buffer ! 0) AND 0xf0) = push_bit 4 MIDI_STATUS_CONTROL_CHANGE"

definition test_program_change :: "byte list \<Rightarrow> bool" where
  "test_program_change buffer \<longleftrightarrow>
     (uint (buffer ! 0) AND 0xf0) = push_bit 4 MIDI_STATUS_PROGRAM_CHANGE"

definition test_channel_pressure :: "byte list \<Rightarrow> bool" where
  "test_channel_pressure buffer \<longleftrightarrow>
     (uint (buffer ! 0) AND 0xf0) = push_bit 4 MIDI_STATUS_CHANNEL_PRESSURE"

definition test_pitch_wheel_change :: "byte list \<Rightarrow> bool" where
  "test_pitch_wheel_change buffer \<longleftrightarrow>
     (uint (buffer ! 0) AND 0xf0) = push_bit 4 MIDI_STATUS_PITCH_WHEEL_CHANGE"

definition test_system_exclusive :: "byte list \<Rightarrow> bool" where
  "test_system_exclusive buffer \<longleftrightarrow> uint (buffer ! 0) = MIDI_STATUS_SYSTEM_EXCLUSIVE"

definition test_time_code_quarter_frame :: "byte list \<Rightarrow> bool" where
  "test_time_code_quarter_frame buffer \<longleftrightarrow> uint (buffer ! 0) = MIDI_STATUS_TIME_CODE_QUARTER_FRAME"

definition test_song_position_pointer :: "byte list \<Rightarrow> bool" where
  "test_song_position_pointer buffer \<longleftrightarrow> uint (buffer ! 0) = MIDI_STATUS_SONG_POSITION_POINTER"

definition test_song_select :: "byte list \<Rightarrow> bool" where
  "test_song_select buffer \<longleftrightarrow> uint (buffer ! 0) = MIDI_STATUS_SONG_SELECT"

definition test_tune_request :: "byte list \<Rightarrow> bool" where
  "test_tune_request buffer \<longleftrightarrow> uint (buffer ! 0) = MIDI_STATUS_TUNE_REQUEST"

definition test_real_time :: "byte list \<Rightarrow> bool" where
  "test_real_time buffer =
     (let byte = uint (buffer ! 0)
      in if byte \<ge> MIDI_STATUS_TIMING_CLOCK \<and> byte \<le> MIDI_STATUS_RESET
         then byte \<noteq> MIDI_STATUS_UNDEFINED2 \<and> byte \<noteq> MIDI_STATUS_UNDEFINED3
         else False)"

subsection \<open>Setters\<close>

text \<open>
  The \<open>PROPERTY_CASE_...\<close> macros. \<open>v\<close> is \<open>*((type*)value)\<close>, the value read through the
  caller's pointer, as an integer; \<open>sizeof_type\<close> is \<open>sizeof(type)\<close>; \<open>field\<close> is the
  current content of the field the macro assigns. The result is the return value and the
  field as the macro leaves it.
\<close>

definition PROPERTY_CASE_SET ::
  "MIDIProperty \<Rightarrow> size_t \<Rightarrow> size_t \<Rightarrow> int \<Rightarrow> 'a::len word \<Rightarrow> int \<times> 'a word" where
  "PROPERTY_CASE_SET flag sizeof_type sz v field =
     (if sz \<noteq> sizeof_type then (1, field)
      else if (v AND (if flag = MIDI_STATUS then 0xff else 0x7f)) \<noteq> v then (1, field)
      else (0, word_of_int v))"

definition PROPERTY_CASE_SET_H ::
  "MIDIProperty \<Rightarrow> size_t \<Rightarrow> size_t \<Rightarrow> int \<Rightarrow> byte \<Rightarrow> int \<times> byte" where
  "PROPERTY_CASE_SET_H flag sizeof_type sz v field =
     (if sz \<noteq> sizeof_type then (1, field)
      else if (v AND (if flag = MIDI_STATUS then 0x0f else 0x07)) \<noteq> v then (1, field)
      else (0, word_of_int (MIDI_NIBBLE_VALUE v (MIDI_LOW_NIBBLE (uint field)))))"

definition PROPERTY_CASE_SET_L ::
  "MIDIProperty \<Rightarrow> size_t \<Rightarrow> size_t \<Rightarrow> int \<Rightarrow> byte \<Rightarrow> int \<times> byte" where
  "PROPERTY_CASE_SET_L flag sizeof_type sz v field =
     (if sz \<noteq> sizeof_type then (1, field)
      else if (v AND 0x0f) \<noteq> v then (1, field)
      else (0, word_of_int (MIDI_NIBBLE_VALUE (MIDI_HIGH_NIBBLE (uint field)) v)))"

text \<open>Assigning the outcome of a macro to \<open>m[i]\<close>.\<close>

definition to_byte :: "MIDIMessageData \<Rightarrow> nat \<Rightarrow> int \<times> byte \<Rightarrow> int \<times> MIDIMessageData" where
  "to_byte d i r = (if fst r = 0 then (0, d\<lparr>bytes := (bytes d)[i := snd r]\<rparr>) else (fst r, d))"

text \<open>
  A setter takes the message data, the property key, the size of the object behind
  \<open>value\<close> and that object (\<open>None\<close> for a \<open>NULL\<close> pointer); it returns the status and the
  message data as it leaves it.
\<close>

definition set_note_off_on ::
  "MIDIMessageData \<Rightarrow> MIDIProperty \<Rightarrow> size_t \<Rightarrow> int option \<Rightarrow> int \<times> MIDIMessageData" where
  "set_note_off_on d property sz val =
     (case val of None \<Rightarrow> (1, d) | Some v \<Rightarrow>
      if sz = 0 then (1, d) else
      (case property of
         MIDI_STATUS \<Rightarrow> to_byte d 0 (PROPERTY_CASE_SET_H MIDI_STATUS sizeof_MIDIStatus sz v (bytes d ! 0))
       | MIDI_CHANNEL \<Rightarrow> to_byte d 0 (PROPERTY_CASE_SET_L MIDI_CHANNEL sizeof_MIDIChannel sz v (bytes d ! 0))
       | MIDI_KEY \<Rightarrow> to_byte d 1 (PROPERTY_CASE_SET MIDI_KEY sizeof_MIDIKey sz v (bytes d ! 1))
       | MIDI_VELOCITY \<Rightarrow> to_byte d 2 (PROPERTY_CASE_SET MIDI_VELOCITY sizeof_MIDIVelocity sz v (bytes d ! 2))
       | _ \<Rightarrow> (1, d)))"

definition set_polyphonic_key_pressure ::
  "MIDIMessageData \<Rightarrow> MIDIProperty \<Rightarrow> size_t \<Rightarrow> int option \<Rightarrow> int \<times> MIDIMessageData" where
  "set_polyphonic_key_pressure d property sz val =
     (case val of None \<Rightarrow> (1, d) | Some v \<Rightarrow>
      if sz = 0 then (1, d) else
      (case property of
         MIDI_STATUS \<Rightarrow> to_byte d 0 (PROPERTY_CASE_SET_H MIDI_STATUS sizeof_MIDIStatus sz v (bytes d ! 0))
       | MIDI_CHANNEL \<Rightarrow> to_byte d 0 (PROPERTY_CASE_SET_L MIDI_CHANNEL sizeof_MIDIChannel sz v (bytes d ! 0))
       | MIDI_KEY \<Rightarrow> to_byte d 1 (PROPERTY_CASE_SET MIDI_KEY sizeof_MIDIKey sz v (bytes d ! 1))
       | MIDI_PRESSURE \<Rightarrow> to_byte d 2 (PROPERTY_CASE_SET MIDI_PRESSURE sizeof_MIDIPressure sz v (bytes d ! 2))
       | _ \<Rightarrow> (1, d)))"

definition set_control_change ::
  "MIDIMessageData \<Rightarrow> MIDIProperty \<Rightarrow> size_t \<Rightarrow> int option \<Rightarrow> int \<times> MIDIMessageData" where
  "set_control_change d property sz val =
     (case val of None \<Rightarrow> (1, d) | Some v \<Rightarrow>
      if sz = 0 then (1, d) else
      (case property of
         MIDI_STATUS \<Rightarrow> to_byte d 0 (PROPERTY_CASE_SET_H MIDI_STATUS sizeof_MIDIStatus sz v (bytes d ! 0))
       | MIDI_CHANNEL \<Rightarrow> to_byte d 0 (PROPERTY_CASE_SET_L MIDI_CHANNEL sizeof_MIDIChannel sz v (bytes d ! 0))
       | MIDI_CONTROL \<Rightarrow> to_byte d 1 (PROPERTY_CASE_SET MIDI_CONTROL sizeof_MIDIControl sz v (bytes d ! 1))
       | MIDI_VALUE \<Rightarrow> to_byte d 2 (PROPERTY_CASE_SET MIDI_VALUE sizeof_MIDIValue sz v (bytes d ! 2))
       | _ \<Rightarrow> (1, d)))"

definition set_program_change ::
  "MIDIMessageData \<Rightarrow> MIDIProperty \<Rightarrow> size_t \<Rightarrow> int option \<Rightarrow> int \<times> MIDIMessageData" where
  "set_program_change d property sz val =
     (case val of None \<Rightarrow> (1, d) | Some v \<Rightarrow>
      if sz = 0 then (1, d) else
      (case property of
         MIDI_STATUS \<Rightarrow> to_byte d 0 (PROPERTY_CASE_SET_H MIDI_STATUS sizeof_MIDIStatus sz v (bytes d ! 0))
       | MIDI_CHANNEL \<Rightarrow> to_byte d 0 (PROPERTY_CASE_SET_L MIDI_CHANNEL sizeof_MIDIChannel sz v (bytes d ! 0))
       | MIDI_PROGRAM \<Rightarrow> to_byte d 1 (PROPERTY_CASE_SET MIDI_PROGRAM sizeof_MIDIProgram sz v (bytes d ! 1))
       | _ \<Rightarrow> (1, d)))"

definition set_channel_pressure ::
  "MIDIMessageData \<Rightarrow> MIDIProperty \<Rightarrow> size_t \<Rightarrow> int option \<Rightarrow> int \<times> MIDIMessageData" where
  "set_channel_pressure d property sz val =
     (case val of None \<Rightarrow> (1, d) | Some v \<Rightarrow>
      if sz = 0 then (1, d) else
      (case property of
         MIDI_STATUS \<Rightarrow> to_byte d 0 (PROPERTY_CASE_SET_H MIDI_STATUS sizeof_MIDIStatus sz v (bytes d ! 0))
       | MIDI_CHANNEL \<Rightarrow> to_byte d 0 (PROPERTY_CASE_SET_L MIDI_CHANNEL sizeof_MIDIChannel sz v (bytes d ! 0))
       | MIDI_PRESSURE \<Rightarrow> to_byte d 1 (PROPERTY_CASE_SET MIDI_PRESSURE sizeof_MIDIPressure sz v (bytes d ! 1))
       | _ \<Rightarrow> (1, d)))"

text \<open>
  The long value of a pitch wheel change or song position pointer is not range checked: its
  low seven bits go to \<open>m[1]\<close>, the next seven to \<open>m[2]\<close>.
\<close>

definition set_long_value :: "MIDIMessageData \<Rightarrow> size_t \<Rightarrow> int \<Rightarrow> int \<times> MIDIMessageData" where
  "set_long_value d sz v =
     (if sz \<noteq> sizeof_MIDILongValue then (1, d)
      else (0, d\<lparr>bytes := (bytes d)[1 := word_of_int (MIDI_LSB v), 2 := word_of_int (MIDI_MSB v)]\<rparr>))"

definition set_pitch_wheel_change ::
  "MIDIMessageData \<Rightarrow> MIDIProperty \<Rightarrow> size_t \<Rightarrow> int option \<Rightarrow> int \<times> MIDIMessageData" where
  "set_pitch_wheel_change d property sz val =
     (case val of None \<Rightarrow> (1, d) | Some v \<Rightarrow>
      if sz = 0 then (1, d) else
      (case property of
         MIDI_STATUS \<Rightarrow> to_byte d 0 (PROPERTY_CASE_SET_H MIDI_STATUS sizeof_MIDIStatus sz v (bytes d ! 0))
       | MIDI_CHANNEL \<Rightarrow> to_byte d 0 (PROPERTY_CASE_SET_L MIDI_CHANNEL sizeof_MIDIChannel sz v (bytes d ! 0))
       | MIDI_VALUE_LSB \<Rightarrow> to_byte d 1 (PROPERTY_CASE_SET MIDI_VALUE_LSB sizeof_MIDIValue sz v (bytes d ! 1))
       | MIDI_VALUE_MSB \<Rightarrow> to_byte d 2 (PROPERTY_CASE_SET MIDI_VALUE_MSB sizeof_MIDIValue sz v (bytes d ! 2))
       | MIDI_VALUE \<Rightarrow> set_long_value d sz v
       | _ \<Rightarrow> (1, d)))"

text \<open>
  The system exclusive setter is the one that touches the heap: setting the payload pointer
  frees the old payload when the message owns it (\<open>bytes[3] == 1\<close>) and stores the pointer
  read through \<open>value\<close>.
\<close>

definition set_system_exclusive ::
  "heap \<Rightarrow> MIDIMessageData \<Rightarrow> MIDIProperty \<Rightarrow> size_t \<Rightarrow> int option
     \<Rightarrow> int \<times> MIDIMessageData \<times> heap" where
  "set_system_exclusive h d property sz val =
     (case val of None \<Rightarrow> (1, d, h) | Some v \<Rightarrow>
      if sz = 0 then (1, d, h) else
      (case property of
         MIDI_STATUS \<Rightarrow>
           (case to_byte d 0 (PROPERTY_CASE_SET MIDI_STATUS sizeof_MIDIStatus sz v (bytes d ! 0))
            of (r, d') \<Rightarrow> (r, d', h))
       | MIDI_MANUFACTURER_ID \<Rightarrow>
           (case to_byte d 1 (PROPERTY_CASE_SET MIDI_MANUFACTURER_ID sizeof_MIDIManufacturerId sz v (bytes d ! 1))
            of (r, d') \<Rightarrow> (r, d', h))
       | MIDI_SYSEX_SIZE \<Rightarrow>
           (case PROPERTY_CASE_SET MIDI_SYSEX_SIZE sizeof_size_t sz v (size_d d)
            of (r, s) \<Rightarrow> if r = 0 then (0, d\<lparr>size_d := s\<rparr>, h) else (r, d, h))
       | MIDI_SYSEX_FRAGMENT \<Rightarrow>
           (case to_byte d 2 (PROPERTY_CASE_SET MIDI_SYSEX_FRAGMENT sizeof_uint8_t sz v (bytes d ! 2))
            of (r, d') \<Rightarrow> (r, d', h))
       | MIDI_SYSEX_DATA \<Rightarrow>
           if sz \<noteq> sizeof_voidpp then (1, d, h)
           else
             let h' = (if data d \<noteq> 0 \<and> bytes d ! 3 = 1 then free h (data d) else h)
             in (0, d\<lparr>data := nat v\<rparr>, h')
       | _ \<Rightarrow> (1, d, h)))"

definition set_time_code_quarter_frame ::
  "MIDIMessageData \<Rightarrow> MIDIProperty \<Rightarrow> size_t \<Rightarrow> int option \<Rightarrow> int \<times> MIDIMessageData" where
  "set_time_code_quarter_frame d property sz val =
     (case val of None \<Rightarrow> (1, d) | Some v \<Rightarrow>
      if sz = 0 then (1, d) else
      (case property of
         MIDI_STATUS \<Rightarrow> to_byte d 0 (PROPERTY_CASE_SET MIDI_STATUS sizeof_MIDIStatus sz v (bytes d ! 0))
       | MIDI_TIME_CODE_TYPE \<Rightarrow> to_byte d 1 (PROPERTY_CASE_SET_H MIDI_TIME_CODE_TYPE sizeof_MIDIValue sz v (bytes d ! 1))
       | MIDI_VALUE \<Rightarrow> to_byte d 1 (PROPERTY_CASE_SET_L MIDI_VALUE sizeof_MIDIValue sz v (bytes d ! 1))
       | _ \<Rightarrow> (1, d)))"

definition set_song_position_pointer ::
  "MIDIMessageData \<Rightarrow> MIDIProperty \<Rightarrow> size_t \<Rightarrow> int option \<Rightarrow> int \<times> MIDIMessageData" where
  "set_song_position_pointer d property sz val =
     (case val of None \<Rightarrow> (1, d) | Some v \<Rightarrow>
      if sz = 0 then (1, d) else
      (case property of
         MIDI_STATUS \<Rightarrow> to_byte d 0 (PROPERTY_CASE_SET MIDI_STATUS sizeof_MIDIStatus sz v (bytes d ! 0))
       | MIDI_VALUE_LSB \<Rightarrow> to_byte d 1 (PROPERTY_CASE_SET MIDI_VALUE_LSB sizeof_MIDIValue sz v (bytes d ! 1))
       | MIDI_VALUE_MSB \<Rightarrow> to_byte d 2 (PROPERTY_CASE_SET MIDI_VALUE_MSB sizeof_MIDIValue sz v (bytes d ! 2))
       | MIDI_VALUE \<Rightarrow> set_long_value d sz v
       | _ \<Rightarrow> (1, d)))"

definition set_song_select ::
  "MIDIMessageData \<Rightarrow> MIDIProperty \<Rightarrow> size_t \<Rightarrow> int option \<Rightarrow> int \<times> MIDIMessageData" where
  "set_song_select d property sz val =
     (case val of None \<Rightarrow> (1, d) | Some v \<Rightarrow>
      if sz = 0 then (1, d) else
      (case property of
         MIDI_STATUS \<Rightarrow> to_byte d 0 (PROPERTY_CASE_SET MIDI_STATUS sizeof_MIDIStatus sz v (bytes d ! 0))
       | MIDI_VALUE \<Rightarrow> to_byte d 1 (PROPERTY_CASE_SET MIDI_VALUE sizeof_MIDIValue sz v (bytes d ! 1))
       | _ \<Rightarrow> (1, d)))"

definition set_tune_request ::
  "MIDIMessageData \<Rightarrow> MIDIProperty \<Rightarrow> size_t \<Rightarrow> int option \<Rightarrow> int \<times> MIDIMessageData" where
  "set_tune_request d property sz val = (1, d)"

definition set_real_time ::
  "MIDIMessageData \<Rightarrow> MIDIProperty \<Rightarrow> size_t \<Rightarrow> int option \<Rightarrow> int \<times> MIDIMessageData" where
  "set_real_time d property sz val =
     (case val of None \<Rightarrow> (1, d) | Some v \<Rightarrow>
      if sz = 0 then (1, d) else
      (case property of
         MIDI_STATUS \<Rightarrow> to_byte d 0 (PROPERTY_CASE_SET MIDI_STATUS sizeof_MIDIStatus sz v (bytes d ! 0))
       | _ \<Rightarrow> (1, d)))"

subsection \<open>Message format definitions\<close>

text \<open>
  \<open>struct MIDIMessageFormat\<close> holds the capabilities of a variant as function pointers. All
  setters, encoders and decoders share one signature in C; here the ones that never touch the
  heap are lifted to the signature of the system exclusive ones. The getters are not used by
  any property below and are left out.
\<close>

record MIDIMessageFormat =
  fmt_test :: "byte list \<Rightarrow> bool"
  fmt_size :: "MIDIMessageData option \<Rightarrow> size_t option \<Rightarrow> int \<times> size_t option"
  fmt_set :: "heap \<Rightarrow> MIDIMessageData \<Rightarrow> MIDIProperty \<Rightarrow> size_t \<Rightarrow> int option
                \<Rightarrow> int \<times> MIDIMessageData \<times> heap"
  fmt_encode :: "heap \<Rightarrow> MIDIMessageData option \<Rightarrow> size_t \<Rightarrow> byte list option
                   \<Rightarrow> int \<times> byte list option"
  fmt_decode :: "heap \<Rightarrow> addr \<Rightarrow> MIDIMessageData option \<Rightarrow> size_t \<Rightarrow> byte list option
                   \<Rightarrow> (int \<times> MIDIMessageData option \<times> heap) option"

definition no_heap_set ::
  "(MIDIMessageData \<Rightarrow> MIDIProperty \<Rightarrow> size_t \<Rightarrow> int option \<Rightarrow> int \<times> MIDIMessageData)
     \<Rightarrow> heap \<Rightarrow> MIDIMessageData \<Rightarrow> MIDIProperty \<Rightarrow> size_t \<Rightarrow> int option
     \<Rightarrow> int \<times> MIDIMessageData \<times> heap" where
  "no_heap_set f h d property sz val = (case f d property sz val of (r, d') \<Rightarrow> (r, d', h))"

definition no_heap_encode ::
  "(MIDIMessageData option \<Rightarrow> size_t \<Rightarrow> byte list option \<Rightarrow> int \<times> byte list option)
     \<Rightarrow> heap \<Rightarrow> MIDIMessageData option \<Rightarrow> size_t \<Rightarrow> byte list option
     \<Rightarrow> int \<times> byte list option" where
  "no_heap_encode f h d sz buffer = f d sz buffer"

definition no_heap_decode ::
  "(MIDIMessageData option \<Rightarrow> size_t \<Rightarrow> byte list option \<Rightarrow> int \<times> MIDIMessageData option)
     \<Rightarrow> heap \<Rightarrow> addr \<Rightarrow> MIDIMessageData option \<Rightarrow> size_t \<Rightarrow> byte list option
     \<Rightarrow> (int \<times> MIDIMessageData option \<times> heap) option" where
  "no_heap_decode f h p d sz buffer = (case f d sz buffer of (r, d') \<Rightarrow> Some (r, d', h))"

definition note_off_on :: MIDIMessageFormat where
  "note_off_on = \<lparr> fmt_test = test_note_off_on, fmt_size = size_three_bytes,
     fmt_set = no_heap_set set_note_off_on,
     fmt_encode = no_heap_encode encode_three_bytes,
     fmt_decode = no_heap_decode decode_three_bytes \<rparr>"

definition polyphonic_key_pressure :: MIDIMessageFormat where
  "polyphonic_key_pressure = \<lparr> fmt_test = test_polyphonic_key_pressure, fmt_size = size_three_bytes,
     fmt_set = no_heap_set set_polyphonic_key_pressure,
     fmt_encode = no_heap_encode encode_three_bytes,
     fmt_decode = no_heap_decode decode_three_bytes \<rparr>"

definition control_change :: MIDIMessageFormat where
  "control_change = \<lparr> fmt_test = test_control_change, fmt_size = size_three_bytes,
     fmt_set = no_heap_set set_control_change,
     fmt_encode = no_heap_encode encode_three_bytes,
     fmt_decode = no_heap_decode decode_three_bytes \<rparr>"

definition program_change :: MIDIMessageFormat where
  "program_change = \<lparr> fmt_test = test_program_change, fmt_size = size_two_bytes,
     fmt_set = no_heap_set set_program_change,
     fmt_encode = no_heap_encode encode_two_bytes,
     fmt_decode = no_heap_decode decode_two_bytes \<rparr>"

definition channel_pressure :: MIDIMessageFormat where
  "channel_pressure = \<lparr> fmt_test = test_channel_pressure, fmt_size = size_two_bytes,
     fmt_set = no_heap_set set_channel_pressure,
     fmt_encode = no_heap_encode encode_two_bytes,
     fmt_decode = no_heap_decode decode_two_bytes \<rparr>"

definition pitch_wheel_change :: MIDIMessageFormat where
  "pitch_wheel_change = \<lparr> fmt_test = test_pitch_wheel_change, fmt_size = size_three_bytes,
     fmt_set = no_heap_set set_pitch_wheel_change,
     fmt_encode = no_heap_encode encode_three_bytes,
     fmt_decode = no_heap_decode decode_three_bytes \<rparr>"

definition system_exclusive :: MIDIMessageFormat where
  "system_exclusive = \<lparr> fmt_test = test_system_exclusive, fmt_size = size_system_exclusive,
     fmt_set = set_system_exclusive,
     fmt_encode = encode_system_exclusive,
     fmt_decode = decode_system_exclusive \<rparr>"

definition time_code_quarter_frame :: MIDIMessageFormat where
  "time_code_quarter_frame = \<lparr> fmt_test = test_time_code_quarter_frame, fmt_size = size_two_bytes,
     fmt_set = no_heap_set set_time_code_quarter_frame,
     fmt_encode = no_heap_encode encode_two_bytes,
     fmt_decode = no_heap_decode decode_two_bytes \<rparr>"

definition song_position_pointer :: MIDIMessageFormat where
  "song_position_pointer = \<lparr> fmt_test = test_song_position_pointer, fmt_size = size_three_bytes,
     fmt_set = no_heap_set set_song_position_pointer,
     fmt_encode = no_heap_encode encode_three_bytes,
     fmt_decode = no_heap_decode decode_three_bytes \<rparr>"

definition song_select :: MIDIMessageFormat where
  "song_select = \<lparr> fmt_test = test_song_select, fmt_size = size_two_bytes,
     fmt_set = no_heap_set set_song_select,
     fmt_encode = no_heap_encode encode_two_bytes,
     fmt_decode = no_heap_decode decode_two_bytes \<rparr>"

definition tune_request :: MIDIMessageFormat where
  "tune_request = \<lparr> fmt_test = test_tune_request, fmt_size = size_one_byte,
     fmt_set = no_heap_set set_tune_request,
     fmt_encode = no_heap_encode encode_one_byte,
     fmt_decode = no_heap_decode decode_one_byte \<rparr>"

definition real_time :: MIDIMessageFormat where
  "real_time = \<lparr> fmt_test = test_real_time, fmt_size = size_one_byte,
     fmt_set = no_heap_set set_real_time,
     fmt_encode = no_heap_encode encode_one_byte,
     fmt_decode = no_heap_decode decode_one_byte \<rparr>"

subsection \<open>Public functions\<close>

text \<open>
  A \<open>struct MIDIMessageFormat *\<close> is the name of one of the twelve static descriptors, or
  \<open>NULL\<close> (\<open>None\<close>); \<open>deref\<close> is the descriptor behind the pointer. The function pointers of
  the static descriptors are never \<open>NULL\<close>, so the \<open>format->f == NULL\<close> tests of the
  public functions have no branch here.
\<close>

datatype format_ptr =
    P_note_off_on | P_polyphonic_key_pressure | P_control_change | P_program_change
  | P_channel_pressure | P_pitch_wheel_change | P_system_exclusive | P_time_code_quarter_frame
  | P_song_position_pointer | P_song_select | P_tune_request | P_real_time

fun deref :: "format_ptr \<Rightarrow> MIDIMessageFormat" where
  "deref P_note_off_on = note_off_on"
| "deref P_polyphonic_key_pressure = polyphonic_key_pressure"
| "deref P_control_change = control_change"
| "deref P_program_change = program_change"
| "deref P_channel_pressure = channel_pressure"
| "deref P_pitch_wheel_change = pitch_wheel_change"
| "deref P_system_exclusive = system_exclusive"
| "deref P_time_code_quarter_frame = time_code_quarter_frame"
| "deref P_song_position_pointer = song_position_pointer"
| "deref P_song_select = song_select"
| "deref P_tune_request = tune_request"
| "deref P_real_time = real_time"

definition formats :: "format_ptr list" where
  "formats = [P_note_off_on, P_polyphonic_key_pressure, P_control_change, P_program_change,
     P_channel_pressure, P_pitch_wheel_change, P_system_exclusive, P_time_code_quarter_frame,
     P_song_position_pointer, P_song_select, P_tune_request, P_real_time]"

text \<open>The loop of \<open>MIDIMessageFormatDetect\<close> returns the first format whose test succeeds.\<close>

fun detect_loop :: "format_ptr list \<Rightarrow> byte list \<Rightarrow> format_ptr option" where
  "detect_loop [] buffer = None"
| "detect_loop (f # fs) buffer = (if fmt_test (deref f) buffer then Some f else detect_loop fs buffer)"

definition MIDIMessageFormatDetect :: "byte list \<Rightarrow> format_ptr option" where
  "MIDIMessageFormatDetect buffer = detect_loop formats buffer"

text \<open>
  \<open>MIDIStatus\<close> is an unsigned integer type; the assignment to the local \<open>uint8_t byte\<close>
  truncates, also after the shift.
\<close>

definition MIDIMessageFormatForStatus :: "nat \<Rightarrow> format_ptr option" where
  "MIDIMessageFormatForStatus status =
     (if status \<ge> 0x80 then
        let byte = (of_nat status :: byte)
        in if byte < 0xf0 then None else MIDIMessageFormatDetect [byte]
      else
        let byte = (of_nat (push_bit 4 status) :: byte)
        in if byte < 0x80 then None else MIDIMessageFormatDetect [byte])"

definition MIDIMessageFormatTest :: "format_ptr option \<Rightarrow> byte list \<Rightarrow> int" where
  "MIDIMessageFormatTest format buffer =
     (case format of None \<Rightarrow> 1 | Some f \<Rightarrow> (if fmt_test (deref f) buffer then 1 else 0))"

definition MIDIMessageFormatGetSize ::
  "format_ptr option \<Rightarrow> MIDIMessageData option \<Rightarrow> size_t option \<Rightarrow> int \<times> size_t option" where
  "MIDIMessageFormatGetSize format d sz =
     (case format of None \<Rightarrow> (1, sz) | Some f \<Rightarrow> fmt_size (deref f) d sz)"

definition MIDIMessageFormatSet ::
  "format_ptr option \<Rightarrow> heap \<Rightarrow> MIDIMessageData \<Rightarrow> MIDIProperty \<Rightarrow> size_t \<Rightarrow> int option
     \<Rightarrow> int \<times> MIDIMessageData \<times> heap" where
  "MIDIMessageFormatSet format h d property sz val =
     (case format of None \<Rightarrow> (1, d, h) | Some f \<Rightarrow> fmt_set (deref f) h d property sz val)"

definition MIDIMessageFormatEncode ::
  "format_ptr option \<Rightarrow> heap \<Rightarrow> MIDIMessageData option \<Rightarrow> size_t \<Rightarrow> byte list option
     \<Rightarrow> int \<times> byte list option" where
  "MIDIMessageFormatEncode format h d sz buffer =
     (case format of None \<Rightarrow> (1, buffer) | Some f \<Rightarrow> fmt_encode (deref f) h d sz buffer)"

definition MIDIMessageFormatDecode ::
  "format_ptr option \<Rightarrow> heap \<Rightarrow> addr \<Rightarrow> MIDIMessageData option \<Rightarrow> size_t \<Rightarrow> byte list option
     \<Rightarrow> (int \<times> MIDIMessageData option \<times> heap) option" where
  "MIDIMessageFormatDecode format h p d sz buffer =
     (case format of None \<Rightarrow> Some (1, d, h) | Some f \<Rightarrow> fmt_decode (deref f) h p d sz buffer)"

section \<open>The AppleMIDI session engine (driver/applemidi/applemidi.c)\<close>

subsection \<open>Wire constants and machine types\<close>

text \<open>
  The source composes and parses every packet as an array of \<open>unsigned long\<close> passed
  through \<open>htonl\<close> and \<open>ntohl\<close>, four bytes per entry on the wire (\<open>sizeof(unsigned long) * 4\<close>
  is the sixteen-byte session header). \<open>unsigned long\<close> is therefore the 32-bit word of
  the ABI the source is written for; its arithmetic wraps. A socket address is a list of
  bytes with its length, a file descriptor an \<open>int\<close>.
\<close>

type_synonym ulong = "32 word"

definition APPLEMIDI_PROTOCOL_SIGNATURE :: int where "APPLEMIDI_PROTOCOL_SIGNATURE = 0xffff"
definition APPLEMIDI_COMMAND_INVITATION :: int where "APPLEMIDI_COMMAND_INVITATION = 0x494e"
definition APPLEMIDI_COMMAND_INVITATION_REJECTED :: int where "APPLEMIDI_COMMAND_INVITATION_REJECTED = 0x4e4f"
definition APPLEMIDI_COMMAND_INVITATION_ACCEPTED :: int where "APPLEMIDI_COMMAND_INVITATION_ACCEPTED = 0x4f4b"
definition APPLEMIDI_COMMAND_ENDSESSION :: int where "APPLEMIDI_COMMAND_ENDSESSION = 0x4259"
definition APPLEMIDI_COMMAND_SYNCHRONIZATION :: int where "APPLEMIDI_COMMAND_SYNCHRONIZATION = 0x434b"
definition APPLEMIDI_COMMAND_RECEIVER_FEEDBACK :: int where "APPLEMIDI_COMMAND_RECEIVER_FEEDBACK = 0x5253"

text \<open>The four bytes \<open>htonl\<close> leaves in memory, and the value \<open>ntohl\<close> reads back.\<close>

definition be32 :: "ulong \<Rightarrow> byte list" where
  "be32 w = [ucast (drop_bit 24 w), ucast (drop_bit 16 w), ucast (drop_bit 8 w), ucast w]"

definition of_be :: "byte list \<Rightarrow> 'a::len word" where
  "of_be bs = foldl (\<lambda>w b. push_bit 8 w OR ucast b) 0 bs"

text \<open>\<open>msg[i] = htonl( v )\<close> and \<open>ntohl( msg[i] )\<close> on the array held as bytes.\<close>

definition store_be32 :: "byte list \<Rightarrow> nat \<Rightarrow> ulong \<Rightarrow> byte list" where
  "store_be32 msg i v = memcpy_at msg (4 * i) (be32 v)"

definition load_be32 :: "byte list \<Rightarrow> nat \<Rightarrow> ulong" where
  "load_be32 msg i = of_be (take 4 (drop (4 * i) msg))"

definition load_be16 :: "byte list \<Rightarrow> nat \<Rightarrow> 16 word" where
  "load_be16 buf i = of_be (take 2 (drop (2 * i) buf))"

definition strlen :: "byte list \<Rightarrow> nat" where
  "strlen s = length (takeWhile (\<lambda>c. c \<noteq> 0) s)"

subsection \<open>Data\<close>

text \<open>
  \<open>struct AppleMIDICommand\<close>. The three members of the union \<open>data\<close> are separate fields
  here: the source reads a member only after writing that same member, or reads it
  uninitialised. The \<open>peer\<close> pointer of the struct is never read or written and is left out.
\<close>

record AppleMIDICommand =
  c_addr :: "byte list"
  c_size :: nat
  c_type :: int
  session_version :: ulong
  session_token :: ulong
  session_ssrc :: ulong
  session_name :: "byte list"
  sync_ssrc :: ulong
  sync_count :: ulong
  sync_timestamp1 :: ulong
  sync_timestamp2 :: ulong
  sync_timestamp3 :: ulong
  feedback_ssrc :: ulong
  feedback_seqnum :: ulong

text \<open>
  The contents of the locals the source reads before it has written them, or only partly
  written: \<open>short buf[2]\<close> of \<open>_test_applemidi\<close>, \<open>unsigned long msg[8]\<close> and \<open>int len\<close> of
  the send and receive functions, the \<open>struct AppleMIDICommand command\<close> of
  \<open>_applemidi_start_sync\<close> and \<open>MIDIDriverAppleMIDIReceive\<close>, and the stack memory that
  starts at the local pointer variable \<open>addr\<close> of \<open>_applemidi_init_addr_with_peer\<close>.
  Every function takes them as the argument \<open>U\<close>; a property that holds of the code holds
  for every \<open>U\<close>.
\<close>

record indeterminate =
  u_buf :: "byte list"
  u_msg :: "byte list"
  u_len :: int
  u_command :: AppleMIDICommand
  u_stack :: "byte list"

text \<open>
  Modelled from the spec: the RTP peer of driver/common/rtp.c, which is not among the
  sources. A peer has its \<open>ssrc\<close>, its address, the estimated clock offset
  \<open>timestamp_diff\<close> and the sequence numbers held in its send journal.
\<close>

record RTPPeer =
  peer_ssrc :: ulong
  peer_size :: nat
  peer_addr :: "byte list"
  timestamp_diff :: ulong
  journal :: "ulong list"

text \<open>
  Modelled from the spec: the RTP session of driver/common/rtp.c; it has the local \<open>ssrc\<close>,
  the current value of its timestamp clock and the peer table.
\<close>

record RTPSession =
  ssrc :: ulong
  timestamp :: ulong
  peers :: "RTPPeer list"

text \<open>A datagram handed to \<open>sendto\<close>, and one waiting on a socket.\<close>

record datagram =
  d_fd :: int
  d_payload :: "byte list"
  d_addr :: "byte list"
  d_size :: nat

record packet =
  p_payload :: "byte list"
  p_addr :: "byte list"
  p_size :: nat

text \<open>
  \<open>struct MIDIDriverAppleMIDI\<close> together with what the driver does to the outside:
  \<open>sent\<close> lists the datagrams passed to \<open>sendto\<close>, oldest first, \<open>rtpmidi_received\<close> the
  datagrams handed to the RTP-MIDI receive path. The reference count and the two message
  queues take no part in the functions below and are left out.
\<close>

record MIDIDriverAppleMIDI =
  control_socket :: int
  rtp_socket :: int
  port :: nat
  token :: ulong
  rtp_session :: RTPSession
  sent :: "datagram list"
  rtpmidi_received :: "packet list"

subsection \<open>RTP session operations\<close>

text \<open>Modelled from the spec: \<open>RTPSessionGetSSRC\<close> of rtp.c reads the local \<open>ssrc\<close>.\<close>

definition RTPSessionGetSSRC :: "RTPSession \<Rightarrow> ulong" where
  "RTPSessionGetSSRC s = ssrc s"

text \<open>Modelled from the spec: \<open>RTPSessionGetTimestamp\<close> of rtp.c reads the session clock.\<close>

definition RTPSessionGetTimestamp :: "RTPSession \<Rightarrow> ulong" where
  "RTPSessionGetTimestamp s = timestamp s"

text \<open>Modelled from the spec: \<open>RTPSessionFindPeerBySSRC\<close> of rtp.c, a lookup in the peer table.\<close>

definition RTPSessionFindPeerBySSRC :: "RTPSession \<Rightarrow> ulong \<Rightarrow> RTPPeer option" where
  "RTPSessionFindPeerBySSRC s x = find (\<lambda>q. peer_ssrc q = x) (peers s)"

text \<open>Modelled from the spec: \<open>RTPPeerCreate\<close> of rtp.c.\<close>

definition RTPPeerCreate :: "ulong \<Rightarrow> nat \<Rightarrow> byte list \<Rightarrow> RTPPeer" where
  "RTPPeerCreate x n a =
     \<lparr> peer_ssrc = x, peer_size = n, peer_addr = a, timestamp_diff = 0, journal = [] \<rparr>"

text \<open>
  Modelled from the spec: \<open>RTPSessionAddPeer\<close> of rtp.c; peers are unique by \<open>ssrc\<close>.
\<close>

definition RTPSessionAddPeer :: "RTPSession \<Rightarrow> RTPPeer \<Rightarrow> RTPSession" where
  "RTPSessionAddPeer s q =
     (if RTPSessionFindPeerBySSRC s (peer_ssrc q) = None then s\<lparr>peers := peers s @ [q]\<rparr> else s)"

text \<open>
  Modelled from the spec: \<open>RTPSessionRemovePeer\<close> of rtp.c; removing a \<open>NULL\<close> peer
  changes nothing.
\<close>

definition RTPSessionRemovePeer :: "RTPSession \<Rightarrow> RTPPeer option \<Rightarrow> RTPSession" where
  "RTPSessionRemovePeer s q =
     (case q of None \<Rightarrow> s
      | Some r \<Rightarrow> s\<lparr>peers := filter (\<lambda>x. peer_ssrc x \<noteq> peer_ssrc r) (peers s)\<rparr>)"

text \<open>
  Modelled from the spec: \<open>RTPMIDISessionTrunkateSendJournal\<close> of rtpmidi.c drops the
  journal entries of the peer up to the given sequence number.
\<close>

definition RTPMIDISessionTrunkateSendJournal :: "RTPSession \<Rightarrow> RTPPeer option \<Rightarrow> ulong \<Rightarrow> RTPSession" where
  "RTPMIDISessionTrunkateSendJournal s q n =
     (case q of None \<Rightarrow> s
      | Some r \<Rightarrow> s\<lparr>peers := map (\<lambda>x. if peer_ssrc x = peer_ssrc r
                                        then x\<lparr>journal := filter (\<lambda>k. n < k) (journal x)\<rparr>
                                        else x) (peers s)\<rparr>)"

text \<open>
  Modelled from the spec: \<open>RTPMIDISessionReceive\<close> of rtpmidi.c is the RTP-MIDI receive
  path; it takes the datagram waiting on the data socket.
\<close>

definition RTPMIDISessionReceive :: "MIDIDriverAppleMIDI \<Rightarrow> packet \<Rightarrow> MIDIDriverAppleMIDI" where
  "RTPMIDISessionReceive driver pkt = driver\<lparr>rtpmidi_received := rtpmidi_received driver @ [pkt]\<rparr>"

text \<open>
  \<open>sendto( fd, buf, len, 0, addr, size )\<close>: the datagram is appended to \<open>sent\<close>. Its
  payload is cut at the end of the array when \<open>len\<close> is larger.
\<close>

definition sendto :: "MIDIDriverAppleMIDI \<Rightarrow> int \<Rightarrow> byte list \<Rightarrow> int \<Rightarrow> byte list \<Rightarrow> nat \<Rightarrow> MIDIDriverAppleMIDI" where
  "sendto driver fd buf len a n =
     driver\<lparr>sent := sent driver @ [\<lparr> d_fd = fd, d_payload = take (nat len) buf, d_addr = a, d_size = n \<rparr>]\<rparr>"

subsection \<open>Commands on the wire\<close>

text \<open>The four command codes that share the session body (the first \<open>case\<close> group).\<close>

definition session_command :: "int \<Rightarrow> bool" where
  "session_command t \<longleftrightarrow>
     t = APPLEMIDI_COMMAND_INVITATION \<or> t = APPLEMIDI_COMMAND_INVITATION_ACCEPTED
   \<or> t = APPLEMIDI_COMMAND_INVITATION_REJECTED \<or> t = APPLEMIDI_COMMAND_ENDSESSION"

text \<open>
  \<open>_test_applemidi\<close> peeks at the datagram waiting on the socket: \<open>recv\<close> is asked for two
  bytes and returns how many it delivered. The result is \<open>0\<close> for an AppleMIDI packet, \<open>1\<close>
  for any other, \<open>-1\<close> when the signature could not be read.
\<close>

definition test_applemidi :: "indeterminate \<Rightarrow> packet \<Rightarrow> int" where
  "test_applemidi U pkt =
     (let n = min 2 (length (p_payload pkt));
          buf = memcpy_at (u_buf U) 0 (take n (p_payload pkt));
          bytes = int n
      in if bytes \<noteq> 4 then -1
         else if uint (load_be16 buf 0) = APPLEMIDI_PROTOCOL_SIGNATURE then
           (if session_command (uint (load_be16 buf 1))
               \<or> uint (load_be16 buf 1) = APPLEMIDI_COMMAND_RECEIVER_FEEDBACK
               \<or> uint (load_be16 buf 1) = APPLEMIDI_COMMAND_SYNCHRONIZATION
            then 0 else 1)
         else 1)"

text \<open>
  \<open>_applemidi_send_command\<close> composes the packet in \<open>msg\<close> and sends \<open>len\<close> bytes of it to
  the address held in the command. The receiver feedback case leaves \<open>len\<close> unset.
\<close>

definition applemidi_send_command ::
  "indeterminate \<Rightarrow> MIDIDriverAppleMIDI \<Rightarrow> int \<Rightarrow> AppleMIDICommand \<Rightarrow> int \<times> MIDIDriverAppleMIDI" where
  "applemidi_send_command U driver fd command =
     (let msg0 = store_be32 (u_msg U) 0
                   (word_of_int (push_bit 16 APPLEMIDI_PROTOCOL_SIGNATURE OR c_type command))
      in if session_command (c_type command) then
           let msg1 = store_be32 msg0 1 (session_version command);
               msg2 = store_be32 msg1 2 (session_token command);
               msg3 = store_be32 msg2 3 (session_ssrc command)
           in if session_name command ! 0 \<noteq> 0 then
                let len = strlen (session_name command);
                    msg4 = memcpy_at msg3 16 (take len (session_name command))
                in (0, sendto driver fd msg4 (int len + 16) (c_addr command) (c_size command))
              else (0, sendto driver fd msg3 16 (c_addr command) (c_size command))
         else if c_type command = APPLEMIDI_COMMAND_SYNCHRONIZATION then
           let msg1 = store_be32 msg0 1 (sync_ssrc command);
               msg2 = store_be32 msg1 2 (sync_count command);
               msg3 = store_be32 msg2 3 (sync_timestamp1 command);
               msg4 = store_be32 msg3 4 (sync_timestamp2 command);
               msg5 = store_be32 msg4 5 (sync_timestamp3 command)
           in (0, sendto driver fd msg5 24 (c_addr command) (c_size command))
         else if c_type command = APPLEMIDI_COMMAND_RECEIVER_FEEDBACK then
           let msg1 = store_be32 msg0 1 (feedback_ssrc command);
               msg2 = store_be32 msg1 2 (feedback_seqnum command)
           in (0, sendto driver fd msg2 (u_len U) (c_addr command) (c_size command))
         else (1, driver))"

text \<open>
  \<open>_applemidi_recv_command\<close> takes the datagram waiting on the socket (at most the 32 bytes
  of \<open>msg\<close>) and decomposes the packet by its command code, the low sixteen bits of the
  first word. The name is cut to fifteen characters and terminated.

  \<open>recvfrom\<close> is given \<open>&command->addr\<close> and \<open>&command->size\<close>: the size is read as the
  room there is for the sender's address and written back. The sender's address is therefore
  stored only up to the size the command held on entry (which the caller never sets), the
  rest of \<open>addr\<close> stays as it was, and the size becomes the length of the sender's address.
\<close>

definition applemidi_recv_command ::
  "indeterminate \<Rightarrow> packet \<Rightarrow> AppleMIDICommand \<Rightarrow> int \<times> AppleMIDICommand" where
  "applemidi_recv_command U pkt command =
     (let n = min 32 (length (p_payload pkt));
          msg = memcpy_at (u_msg U) 0 (take n (p_payload pkt));
          len = int n;
          room = min (c_size command) (p_size pkt);
          c0 = command\<lparr>c_addr := memcpy_at (c_addr command) 0 (take room (p_addr pkt)),
                         c_size := p_size pkt\<rparr>;
          c1 = c0\<lparr>c_type := uint (load_be32 msg 0 AND 0xffff)\<rparr>
      in if session_command (c_type c1) then
           let c2 = c1\<lparr>session_version := load_be32 msg 1,
                      session_token := load_be32 msg 2,
                      session_ssrc := load_be32 msg 3\<rparr>;
               len1 = len - 16
           in if len1 > 0 then
                let len2 = (if len1 > 15 then 15 else len1);
                    name1 = memcpy_at (session_name c2) 0 (take (nat len2) (drop 16 msg))
                in (0, c2\<lparr>session_name := name1[nat len2 := 0]\<rparr>)
              else (0, c2)
         else if c_type c1 = APPLEMIDI_COMMAND_SYNCHRONIZATION then
           (0, c1\<lparr>sync_ssrc := load_be32 msg 1,
                  sync_count := load_be32 msg 2,
                  sync_timestamp1 := load_be32 msg 3,
                  sync_timestamp2 := load_be32 msg 4,
                  sync_timestamp3 := load_be32 msg 5\<rparr>)
         else if c_type c1 = APPLEMIDI_COMMAND_RECEIVER_FEEDBACK then
           (0, c1\<lparr>feedback_ssrc := load_be32 msg 1,
                  feedback_seqnum := load_be32 msg 2\<rparr>)
         else (1, c1))"

subsection \<open>Clock synchronization\<close>

text \<open>
  \<open>_applemidi_sync\<close> starts a synchronization (the command is not a synchronization
  command, or carries the local \<open>ssrc\<close>) or continues one. The two assignments to the local
  \<open>diff\<close> are kept as \<open>diff1\<close> and \<open>diff2\<close>; the call that would store the result in the
  peer is commented out in the source, so nothing reads them. The peer found by
  \<open>RTPSessionFindPeerBySSRC\<close> is not used either. The result is the return value, the
  command as the function leaves it and the driver.
\<close>

definition applemidi_sync ::
  "indeterminate \<Rightarrow> MIDIDriverAppleMIDI \<Rightarrow> int \<Rightarrow> AppleMIDICommand
     \<Rightarrow> int \<times> AppleMIDICommand \<times> MIDIDriverAppleMIDI" where
  "applemidi_sync U driver fd command =
     (let local = RTPSessionGetSSRC (rtp_session driver);
          now = RTPSessionGetTimestamp (rtp_session driver)
      in if c_type command \<noteq> APPLEMIDI_COMMAND_SYNCHRONIZATION \<or> sync_ssrc command = local then
           let c1 = command\<lparr>c_type := APPLEMIDI_COMMAND_SYNCHRONIZATION,
                           sync_ssrc := local,
                           sync_count := 1,
                           sync_timestamp1 := now\<rparr>
           in (case applemidi_send_command U driver fd c1 of (r, driver') \<Rightarrow> (r, c1, driver'))
         else
           let peer = RTPSessionFindPeerBySSRC (rtp_session driver) (sync_ssrc command)
           in if sync_count command = 3 then
                let diff1 = (sync_timestamp3 command - sync_timestamp1 command) div 2;
                    diff2 = sync_timestamp3 command + diff1 - now
                in (0, command\<lparr>sync_ssrc := local, sync_count := 0\<rparr>, driver)
              else if sync_count command = 2 then
                let diff1 = (sync_timestamp3 command - sync_timestamp1 command) div 2;
                    diff2 = sync_timestamp2 command + diff1 - now;
                    c1 = command\<lparr>sync_ssrc := local, sync_count := 3, sync_timestamp3 := now\<rparr>
                in (case applemidi_send_command U driver fd c1 of (r, driver') \<Rightarrow> (r, c1, driver'))
              else if sync_count command = 1 then
                let c1 = command\<lparr>sync_ssrc := local, sync_count := 2, sync_timestamp2 := now\<rparr>
                in (case applemidi_send_command U driver fd c1 of (r, driver') \<Rightarrow> (r, c1, driver'))
              else (1, command, driver))"

text \<open>
  \<open>_applemidi_init_addr_with_peer\<close> copies \<open>size\<close> bytes from the address of its local
  pointer variable (\<open>&addr\<close>), not from the peer's address the pointer holds.
\<close>

definition applemidi_init_addr_with_peer ::
  "indeterminate \<Rightarrow> AppleMIDICommand \<Rightarrow> RTPPeer \<Rightarrow> AppleMIDICommand" where
  "applemidi_init_addr_with_peer U command peer =
     command\<lparr>c_addr := memcpy_at (c_addr command) 0 (take (peer_size peer) (u_stack U)),
             c_size := peer_size peer\<rparr>"

definition applemidi_start_sync ::
  "indeterminate \<Rightarrow> MIDIDriverAppleMIDI \<Rightarrow> int \<Rightarrow> RTPPeer \<Rightarrow> int \<times> MIDIDriverAppleMIDI" where
  "applemidi_start_sync U driver fd peer =
     (let command = applemidi_init_addr_with_peer U (u_command U) peer
      in case applemidi_sync U driver fd command of (r, c, driver') \<Rightarrow> (r, driver'))"

subsection \<open>Responding and receiving\<close>

definition applemidi_respond ::
  "indeterminate \<Rightarrow> MIDIDriverAppleMIDI \<Rightarrow> int \<Rightarrow> AppleMIDICommand
     \<Rightarrow> int \<times> AppleMIDICommand \<times> MIDIDriverAppleMIDI" where
  "applemidi_respond U driver fd command =
     (if c_type command = APPLEMIDI_COMMAND_INVITATION then
        let c1 = command\<lparr>c_type := APPLEMIDI_COMMAND_INVITATION_ACCEPTED\<rparr>;
            c2 = c1\<lparr>session_ssrc := RTPSessionGetSSRC (rtp_session driver)\<rparr>
        in (case applemidi_send_command U driver fd c2 of (r, driver') \<Rightarrow> (r, c2, driver'))
      else if c_type command = APPLEMIDI_COMMAND_INVITATION_ACCEPTED then
        let peer = RTPPeerCreate (session_ssrc command) (c_size command) (c_addr command)
        in (0, command, driver\<lparr>rtp_session := RTPSessionAddPeer (rtp_session driver) peer\<rparr>)
      else if c_type command = APPLEMIDI_COMMAND_INVITATION_REJECTED then
        (0, command, driver)
      else if c_type command = APPLEMIDI_COMMAND_ENDSESSION then
        let peer = RTPSessionFindPeerBySSRC (rtp_session driver) (session_ssrc command)
        in (0, command, driver\<lparr>rtp_session := RTPSessionRemovePeer (rtp_session driver) peer\<rparr>)
      else if c_type command = APPLEMIDI_COMMAND_SYNCHRONIZATION then
        applemidi_sync U driver fd command
      else if c_type command = APPLEMIDI_COMMAND_RECEIVER_FEEDBACK then
        let peer = RTPSessionFindPeerBySSRC (rtp_session driver) (feedback_ssrc command)
        in (0, command, driver\<lparr>rtp_session :=
              RTPMIDISessionTrunkateSendJournal (rtp_session driver) peer (feedback_seqnum command)\<rparr>)
      else (0, command, driver))"

text \<open>
  \<open>MIDIDriverAppleMIDIReceive\<close>. \<open>fds\<close> is the descriptor set as \<open>select\<close> leaves it
  (the source passes 2 as the number of descriptors to examine, so which sockets are flagged
  is the platform's answer and is taken as given) and \<open>pending fd\<close> the datagram waiting on
  \<open>fd\<close>. The control socket is served first. The branch taken when \<open>_test_applemidi\<close>
  returns non-zero is the one that receives and answers an AppleMIDI command.
\<close>

definition MIDIDriverAppleMIDIReceive ::
  "indeterminate \<Rightarrow> MIDIDriverAppleMIDI \<Rightarrow> int list \<Rightarrow> (int \<Rightarrow> packet) \<Rightarrow> int \<times> MIDIDriverAppleMIDI" where
  "MIDIDriverAppleMIDIReceive U driver fds pending =
     (let ready = (if List.member fds (control_socket driver) then Some (control_socket driver)
                   else if List.member fds (rtp_socket driver) then Some (rtp_socket driver)
                   else None)
      in case ready of None \<Rightarrow> (0, driver) | Some fd \<Rightarrow>
           if test_applemidi U (pending fd) \<noteq> 0 then
             (case applemidi_recv_command U (pending fd) (u_command U) of (r, command) \<Rightarrow>
                if r = 0 then
                  (case applemidi_respond U driver fd command of (r', c', driver') \<Rightarrow> (r', driver'))
                else (0, driver))
           else if fd = rtp_socket driver then (0, RTPMIDISessionReceive driver (pending fd))
           else (0, driver))"

section \<open>Notions of the specification\<close>

text \<open>
  The property keys that mean something for each variant, in the specification's words:
  channel voice messages have a status nibble and a channel beside their data bytes, the
  pitch wheel and the song position pointer a 14-bit value with its two halves, a system
  exclusive message its manufacturer id, size, fragment index and payload, the time code
  quarter frame a type and a value, and tune request and real-time messages only a status.
\<close>

fun property_keys :: "format_ptr \<Rightarrow> MIDIProperty list" where
  "property_keys P_note_off_on = [MIDI_STATUS, MIDI_CHANNEL, MIDI_KEY, MIDI_VELOCITY]"
| "property_keys P_polyphonic_key_pressure = [MIDI_STATUS, MIDI_CHANNEL, MIDI_KEY, MIDI_PRESSURE]"
| "property_keys P_control_change = [MIDI_STATUS, MIDI_CHANNEL, MIDI_CONTROL, MIDI_VALUE]"
| "property_keys P_program_change = [MIDI_STATUS, MIDI_CHANNEL, MIDI_PROGRAM]"
| "property_keys P_channel_pressure = [MIDI_STATUS, MIDI_CHANNEL, MIDI_PRESSURE]"
| "property_keys P_pitch_wheel_change =
     [MIDI_STATUS, MIDI_CHANNEL, MIDI_VALUE, MIDI_VALUE_LSB, MIDI_VALUE_MSB]"
| "property_keys P_system_exclusive =
     [MIDI_STATUS, MIDI_MANUFACTURER_ID, MIDI_SYSEX_SIZE, MIDI_SYSEX_FRAGMENT, MIDI_SYSEX_DATA]"
| "property_keys P_time_code_quarter_frame = [MIDI_STATUS, MIDI_TIME_CODE_TYPE, MIDI_VALUE]"
| "property_keys P_song_position_pointer =
     [MIDI_STATUS, MIDI_VALUE, MIDI_VALUE_LSB, MIDI_VALUE_MSB]"
| "property_keys P_song_select = [MIDI_STATUS, MIDI_VALUE]"
| "property_keys P_tune_request = [MIDI_STATUS]"
| "property_keys P_real_time = [MIDI_STATUS]"

text \<open>
  The properties that are one MIDI data byte: key, velocity, pressure, controller, program,
  manufacturer id and the two halves of a long value in every variant, and the value where
  it is not the 14-bit long value of a pitch wheel change or song position pointer.
\<close>

definition data_byte_property :: "format_ptr \<Rightarrow> MIDIProperty \<Rightarrow> bool" where
  "data_byte_property f property \<longleftrightarrow>
     List.member [MIDI_KEY, MIDI_VELOCITY, MIDI_PRESSURE, MIDI_CONTROL, MIDI_PROGRAM,
                  MIDI_MANUFACTURER_ID, MIDI_VALUE_LSB, MIDI_VALUE_MSB] property
   \<or> (property = MIDI_VALUE
        \<and> List.member [P_control_change, P_time_code_quarter_frame, P_song_select] f)"

text \<open>The six channel voice variants.\<close>

definition channel_voice :: "format_ptr list" where
  "channel_voice = [P_note_off_on, P_polyphonic_key_pressure, P_control_change,
     P_program_change, P_channel_pressure, P_pitch_wheel_change]"

section \<open>Concrete inputs\<close>

text \<open>A note-on message, a system exclusive first fragment and a continuation fragment.\<close>

definition note_on_60 :: MIDIMessageData where
  "note_on_60 = \<lparr> bytes = [0x93, 0x3C, 0x64, 0], size_d = 0, data = 0 \<rparr>"

definition sysex_first :: MIDIMessageData where
  "sysex_first = \<lparr> bytes = [0xF0, 0x7D, 0, 1], size_d = 3, data = 100 \<rparr>"

definition sysex_continuation :: MIDIMessageData where
  "sysex_continuation = \<lparr> bytes = [0xF0, 0x7D, 1, 1], size_d = 3, data = 100 \<rparr>"

definition heap0 :: heap where
  "heap0 = [100 \<mapsto> [1, 2, 3]]"

text \<open>
  A driver on descriptors 3 and 4 with local \<open>ssrc\<close> 1, clock at 30 and one peer of
  \<open>ssrc\<close> 7; uninitialised memory that happens to be zero.
\<close>

definition command0 :: AppleMIDICommand where
  "command0 = \<lparr> c_addr = replicate 16 0, c_size = 0, c_type = 0,
     session_version = 0, session_token = 0, session_ssrc = 0, session_name = replicate 16 0,
     sync_ssrc = 0, sync_count = 0, sync_timestamp1 = 0, sync_timestamp2 = 0,
     sync_timestamp3 = 0, feedback_ssrc = 0, feedback_seqnum = 0 \<rparr>"

definition U0 :: indeterminate where
  "U0 = \<lparr> u_buf = replicate 4 0, u_msg = replicate 32 0, u_len = 0, u_command = command0,
          u_stack = replicate 16 0 \<rparr>"

definition peer0 :: RTPPeer where
  "peer0 = \<lparr> peer_ssrc = 7, peer_size = 16,
     peer_addr = [2, 0, 0x17, 0x70, 127, 0, 0, 1, 0, 0, 0, 0, 0, 0, 0, 0],
     timestamp_diff = 0, journal = [] \<rparr>"

definition driver0 :: MIDIDriverAppleMIDI where
  "driver0 = \<lparr> control_socket = 3, rtp_socket = 4, port = 5004, token = 0x1234,
     rtp_session = \<lparr> ssrc = 1, timestamp = 30, peers = [peer0] \<rparr>,
     sent = [], rtpmidi_received = [] \<rparr>"

text \<open>An RTP-MIDI datagram (RTP version 2, payload type 0x61) carrying a note-on.\<close>

definition rtp_packet0 :: packet where
  "rtp_packet0 =
     \<lparr> p_payload = [0x80, 0x61, 0, 1, 0, 0, 0, 0, 0, 0, 0, 7, 0x03, 0x90, 0x3c, 0x64],
       p_addr = peer_addr peer0, p_size = 16 \<rparr>"



text \<open>
  A \<open>CK\<close> with count 2 from the peer (\<open>t1 = 10\<close>, \<open>t2 = 50\<close>, \<open>t3 = 30\<close>), and a
  \<open>CK\<close> that carries the local \<open>ssrc\<close>.
\<close>

definition ck2 :: AppleMIDICommand where
  "ck2 = command0\<lparr> c_addr := peer_addr peer0, c_size := 16,
     c_type := APPLEMIDI_COMMAND_SYNCHRONIZATION,
     sync_ssrc := 7, sync_count := 2,
     sync_timestamp1 := 10, sync_timestamp2 := 50, sync_timestamp3 := 30 \<rparr>"

definition ck_echo :: AppleMIDICommand where
  "ck_echo = command0\<lparr> c_addr := peer_addr peer0, c_size := 16,
     c_type := APPLEMIDI_COMMAND_SYNCHRONIZATION,
     sync_ssrc := 1, sync_count := 1, sync_timestamp1 := 10 \<rparr>"

text \<open>What waits on the sockets: the RTP-MIDI datagram.\<close>

definition pending_rtp :: "int \<Rightarrow> packet" where
  "pending_rtp fd = rtp_packet0"

section \<open>Properties of the message format registry\<close>

lemmas MIDI_STATUS_defs =
  MIDI_STATUS_NOTE_OFF_def MIDI_STATUS_NOTE_ON_def MIDI_STATUS_POLYPHONIC_KEY_PRESSURE_def
  MIDI_STATUS_CONTROL_CHANGE_def MIDI_STATUS_PROGRAM_CHANGE_def MIDI_STATUS_CHANNEL_PRESSURE_def
  MIDI_STATUS_PITCH_WHEEL_CHANGE_def MIDI_STATUS_SYSTEM_EXCLUSIVE_def
  MIDI_STATUS_TIME_CODE_QUARTER_FRAME_def MIDI_STATUS_SONG_POSITION_POINTER_def
  MIDI_STATUS_SONG_SELECT_def MIDI_STATUS_TUNE_REQUEST_def MIDI_STATUS_TIMING_CLOCK_def
  MIDI_STATUS_UNDEFINED2_def MIDI_STATUS_UNDEFINED3_def MIDI_STATUS_RESET_def

lemmas fmt_defs = note_off_on_def polyphonic_key_pressure_def control_change_def
  program_change_def channel_pressure_def pitch_wheel_change_def system_exclusive_def
  time_code_quarter_frame_def song_position_pointer_def song_select_def tune_request_def
  real_time_def

lemmas test_defs = test_note_off_on_def test_polyphonic_key_pressure_def test_control_change_def
  test_program_change_def test_channel_pressure_def test_pitch_wheel_change_def
  test_system_exclusive_def test_time_code_quarter_frame_def test_song_position_pointer_def
  test_song_select_def test_tune_request_def test_real_time_def

lemmas set_defs = set_note_off_on_def set_polyphonic_key_pressure_def set_control_change_def
  set_program_change_def set_channel_pressure_def set_pitch_wheel_change_def
  set_system_exclusive_def set_time_code_quarter_frame_def set_song_position_pointer_def
  set_song_select_def set_tune_request_def set_real_time_def

subsection \<open>Shapes of short lists\<close>

lemma length4: "length xs = 4 \<Longrightarrow> \<exists>a b c e. xs = [a, b, c, e]"
  by (auto simp: numeral_eq_Suc length_Suc_conv)

lemma length_ge1: "1 \<le> length xs \<Longrightarrow> \<exists>a r. xs = a # r"
  by (cases xs) auto

lemma length_ge2: "2 \<le> length xs \<Longrightarrow> \<exists>a b r. xs = a # b # r"
  by (auto simp: numeral_eq_Suc Suc_le_length_iff)

lemma length_ge3: "3 \<le> length xs \<Longrightarrow> \<exists>a b c r. xs = a # b # c # r"
  by (auto simp: numeral_eq_Suc Suc_le_length_iff)

subsection \<open>Round trips of the fixed-size codecs\<close>

lemma one_byte_roundtrip:
  assumes "1 \<le> sz" "1 \<le> length b" "length (bytes m) = 4" "length (bytes d) = 4"
  shows "fst (encode_one_byte (Some m) sz (Some b)) = 0
       \<and> decode_one_byte (Some d) sz (snd (encode_one_byte (Some m) sz (Some b)))
           = (0, Some (d\<lparr>bytes := take 1 (bytes m) @ drop 1 (bytes d)\<rparr>))"
proof -
  obtain a1 a2 a3 a4 where m: "bytes m = [a1, a2, a3, a4]" using length4 [OF assms(3)] by blast
  obtain e1 e2 e3 e4 where d: "bytes d = [e1, e2, e3, e4]" using length4 [OF assms(4)] by blast
  from assms(1) have s: "sz \<noteq> 0" by auto
  obtain x1 r where l: "b = x1 # r" using length_ge1 [OF assms(2)] by blast
  show ?thesis
    by (simp add: encode_one_byte_def decode_one_byte_def s m d l)
qed

lemma two_bytes_roundtrip:
  assumes "2 \<le> sz" "2 \<le> length b" "length (bytes m) = 4" "length (bytes d) = 4"
  shows "fst (encode_two_bytes (Some m) sz (Some b)) = 0
       \<and> decode_two_bytes (Some d) sz (snd (encode_two_bytes (Some m) sz (Some b)))
           = (0, Some (d\<lparr>bytes := take 2 (bytes m) @ drop 2 (bytes d)\<rparr>))"
proof -
  obtain a1 a2 a3 a4 where m: "bytes m = [a1, a2, a3, a4]" using length4 [OF assms(3)] by blast
  obtain e1 e2 e3 e4 where d: "bytes d = [e1, e2, e3, e4]" using length4 [OF assms(4)] by blast
  from assms(1) have s: "\<not> sz < 2" by (simp add: not_less)
  obtain x1 x2 r where l: "b = x1 # x2 # r" using length_ge2 [OF assms(2)] by blast
  show ?thesis
    by (simp add: encode_two_bytes_def decode_two_bytes_def s m d l)
qed

lemma three_bytes_roundtrip:
  assumes "3 \<le> sz" "3 \<le> length b" "length (bytes m) = 4" "length (bytes d) = 4"
  shows "fst (encode_three_bytes (Some m) sz (Some b)) = 0
       \<and> decode_three_bytes (Some d) sz (snd (encode_three_bytes (Some m) sz (Some b)))
           = (0, Some (d\<lparr>bytes := take 3 (bytes m) @ drop 3 (bytes d)\<rparr>))"
proof -
  obtain a1 a2 a3 a4 where m: "bytes m = [a1, a2, a3, a4]" using length4 [OF assms(3)] by blast
  obtain e1 e2 e3 e4 where d: "bytes d = [e1, e2, e3, e4]" using length4 [OF assms(4)] by blast
  from assms(1) have s: "\<not> sz < 3" by (simp add: not_less)
  obtain x1 x2 x3 r where l: "b = x1 # x2 # x3 # r" using length_ge3 [OF assms(2)] by blast
  show ?thesis
    by (simp add: encode_three_bytes_def decode_three_bytes_def s m d l)
qed

lemma one_byte_exact:
  assumes "1 \<le> length b" "length (bytes m) = 4" "length (bytes d) = 4"
  shows "fst (encode_one_byte (Some m) 1 (Some b)) = 0"
    and "decode_one_byte (Some d) 1 (snd (encode_one_byte (Some m) 1 (Some b)))
           = (0, Some (d\<lparr>bytes := take 1 (bytes m) @ drop 1 (bytes d)\<rparr>))"
  using one_byte_roundtrip [of 1 b m d] assms by simp_all

lemma two_bytes_exact:
  assumes "2 \<le> length b" "length (bytes m) = 4" "length (bytes d) = 4"
  shows "fst (encode_two_bytes (Some m) 2 (Some b)) = 0"
    and "decode_two_bytes (Some d) 2 (snd (encode_two_bytes (Some m) 2 (Some b)))
           = (0, Some (d\<lparr>bytes := take 2 (bytes m) @ drop 2 (bytes d)\<rparr>))"
  using two_bytes_roundtrip [of 2 b m d] assms by simp_all

lemma three_bytes_exact:
  assumes "3 \<le> length b" "length (bytes m) = 4" "length (bytes d) = 4"
  shows "fst (encode_three_bytes (Some m) 3 (Some b)) = 0"
    and "decode_three_bytes (Some d) 3 (snd (encode_three_bytes (Some m) 3 (Some b)))
           = (0, Some (d\<lparr>bytes := take 3 (bytes m) @ drop 3 (bytes d)\<rparr>))"
  using three_bytes_roundtrip [of 3 b m d] assms by simp_all

lemma fixed_roundtrip:
  assumes "f \<noteq> P_system_exclusive"
      and "MIDIMessageFormatGetSize (Some f) (Some m) (Some s0) = (0, Some n)"
      and "unat n \<le> length b"
      and "length (bytes m) = 4" and "length (bytes d) = 4"
  shows "fst (MIDIMessageFormatEncode (Some f) h (Some m) n (Some b)) = 0
       \<and> MIDIMessageFormatDecode (Some f) h p (Some d) n
            (snd (MIDIMessageFormatEncode (Some f) h (Some m) n (Some b)))
           = Some (0, Some (d\<lparr>bytes := take (unat n) (bytes m) @ drop (unat n) (bytes d)\<rparr>), h)"
  using assms
  by (cases f)
     (auto simp: MIDIMessageFormatGetSize_def MIDIMessageFormatEncode_def
        MIDIMessageFormatDecode_def fmt_defs size_one_byte_def size_two_bytes_def
        size_three_bytes_def no_heap_encode_def no_heap_decode_def
        one_byte_exact two_bytes_exact three_bytes_exact)

subsection \<open>Round trip of a system exclusive first fragment\<close>

lemma sysex_roundtrip:
  assumes frag: "bytes m ! 2 = 0"
      and pay: "length (memread h (data m) (unat (size_d m))) = unat (size_d m)"
      and nul: "size_d m = 0 \<or> data m \<noteq> 0"
      and room: "unat (size_d m) + 2 \<le> length b"
      and p: "p \<noteq> 0"
      and lm: "length (bytes m) = 4" and ld: "length (bytes d) = 4"
  shows "fst (encode_system_exclusive h (Some m) (size_d m + 2) (Some b)) = 0
       \<and> decode_system_exclusive h p (Some d) (size_d m + 2)
            (snd (encode_system_exclusive h (Some m) (size_d m + 2) (Some b)))
           = Some (0, Some (d\<lparr>bytes := [bytes m ! 0, bytes m ! 1, 0, 1],
                                size_d := size_d m, data := p\<rparr>),
                   h(p \<mapsto> memread h (data m) (unat (size_d m))))"
proof -
  obtain a1 a2 a3 a4 where m: "bytes m = [a1, a2, a3, a4]" using length4 [OF lm] by blast
  obtain e1 e2 e3 e4 where d: "bytes d = [e1, e2, e3, e4]" using length4 [OF ld] by blast
  from room have "2 \<le> length b" by simp
  then obtain x1 x2 r where b: "b = x1 # x2 # r" using length_ge2 by blast
  from room b have r: "unat (size_d m) \<le> length r" by simp
  show ?thesis
  proof (cases "size_d m = 0")
    case True
    then show ?thesis using frag
      by (simp add: encode_system_exclusive_def decode_system_exclusive_def m d b p memread_def
            split: option.splits)
  next
    case False
    with nul have dn: "data m \<noteq> 0" by simp
    from False have pos: "0 < size_d m" by (simp add: word_greater_zero_iff)
    show ?thesis using frag pay r
      by (simp add: encode_system_exclusive_def decode_system_exclusive_def m d b p dn pos
            memcpy_at_def Let_def)
  qed
qed

text \<open>
  C6 (as stated: decoding the encoding of a message yields that message, for every variant,
  system exclusive fragments included). The encoding of a continuation fragment is its
  payload alone, and the decoder reads every input as a first fragment: the first two payload
  bytes become status and manufacturer id, the fragment index becomes 0 and the size shrinks
  by two.
\<close>

theorem sysex_continuation_roundtrip_counterexample:
  "MIDIMessageFormatGetSize (Some P_system_exclusive) (Some sysex_continuation) (Some 0)
     = (0, Some 3)
   \<and> MIDIMessageFormatEncode (Some P_system_exclusive) heap0 (Some sysex_continuation) 3
       (Some [0, 0, 0]) = (0, Some [1, 2, 3])
   \<and> MIDIMessageFormatDecode (Some P_system_exclusive) heap0 200 (Some sysex_continuation) 3
       (Some [1, 2, 3])
     = Some (0, Some \<lparr> bytes = [1, 2, 0, 1], size_d = 1, data = 200 \<rparr>, heap0(200 \<mapsto> [3]))
   \<and> bytes sysex_continuation = [0xF0, 0x7D, 1, 1]
   \<and> size_d sysex_continuation = 3
   \<and> \<lparr> bytes = [1, 2, 0, 1], size_d = 1, data = 200 \<rparr> \<noteq> sysex_continuation"
  by (simp add: MIDIMessageFormatGetSize_def MIDIMessageFormatEncode_def
        MIDIMessageFormatDecode_def system_exclusive_def size_system_exclusive_def
        encode_system_exclusive_def decode_system_exclusive_def sysex_continuation_def heap0_def
        memread_def memcpy_at_def)

text \<open>
  C6 (amended). Let \<open>n\<close> be the size the format reports for \<open>m\<close>, and let \<open>m\<close> be encoded
  into a buffer of at least \<open>n\<close> bytes and the result decoded into a record \<open>d\<close>. For each of
  the eleven fixed-size variants the first \<open>n\<close> header bytes of the result are those of
  \<open>m\<close> and everything else is as it was in \<open>d\<close>. For a system exclusive first fragment
  (\<open>bytes[2] = 0\<close>) whose payload buffer holds \<open>size\<close> bytes, when the allocation
  succeeds, the result has the status, manufacturer id and size of \<open>m\<close>, fragment index 0,
  the owning flag 1, and the payload of \<open>m\<close> in the buffer the allocation returned.
\<close>

theorem codec_roundtrip:
  assumes size: "MIDIMessageFormatGetSize (Some f) (Some m) (Some s0) = (0, Some n)"
      and lm: "length (bytes m) = 4" and ld: "length (bytes d) = 4"
      and fixed: "f \<noteq> P_system_exclusive \<longrightarrow> unat n \<le> length b"
      and sysex: "f = P_system_exclusive \<longrightarrow>
                    bytes m ! 2 = 0
                  \<and> length (memread h (data m) (unat (size_d m))) = unat (size_d m)
                  \<and> (size_d m = 0 \<or> data m \<noteq> 0)
                  \<and> unat (size_d m) + 2 \<le> length b
                  \<and> p \<noteq> 0"
  shows "fst (MIDIMessageFormatEncode (Some f) h (Some m) n (Some b)) = 0
       \<and> MIDIMessageFormatDecode (Some f) h p (Some d) n
            (snd (MIDIMessageFormatEncode (Some f) h (Some m) n (Some b)))
           = Some (0,
               Some (if f = P_system_exclusive
                     then d\<lparr>bytes := [bytes m ! 0, bytes m ! 1, 0, 1],
                            size_d := size_d m, data := p\<rparr>
                     else d\<lparr>bytes := take (unat n) (bytes m) @ drop (unat n) (bytes d)\<rparr>),
               if f = P_system_exclusive
               then h(p \<mapsto> memread h (data m) (unat (size_d m))) else h)"
proof (cases "f = P_system_exclusive")
  case False
  with fixed have "unat n \<le> length b" by simp
  from fixed_roundtrip [OF False size this lm ld] False show ?thesis by simp
next
  case True
  with sysex have frag: "bytes m ! 2 = 0"
    and pay: "length (memread h (data m) (unat (size_d m))) = unat (size_d m)"
    and nul: "size_d m = 0 \<or> data m \<noteq> 0"
    and room: "unat (size_d m) + 2 \<le> length b"
    and p: "p \<noteq> 0" by simp_all
  from size True frag have n: "n = size_d m + 2"
    by (simp add: MIDIMessageFormatGetSize_def system_exclusive_def size_system_exclusive_def)
  from sysex_roundtrip [OF frag pay nul room p lm ld] True n show ?thesis
    by (simp add: MIDIMessageFormatEncode_def MIDIMessageFormatDecode_def system_exclusive_def)
qed

theorem codec_roundtrip_witness:
  "(MIDIMessageFormatGetSize (Some P_note_off_on) (Some note_on_60) (Some 0) = (0, Some 3)
    \<and> MIDIMessageFormatEncode (Some P_note_off_on) heap0 (Some note_on_60) 3 (Some [0, 0, 0])
        = (0, Some [0x93, 0x3C, 0x64])
    \<and> MIDIMessageFormatDecode (Some P_note_off_on) heap0 200 (Some note_on_60) 3
        (Some [0x93, 0x3C, 0x64]) = Some (0, Some note_on_60, heap0))
   \<and> (MIDIMessageFormatGetSize (Some P_system_exclusive) (Some sysex_first) (Some 0)
        = (0, Some 5)
    \<and> MIDIMessageFormatEncode (Some P_system_exclusive) heap0 (Some sysex_first) 5
        (Some [0, 0, 0, 0, 0]) = (0, Some [0xF0, 0x7D, 1, 2, 3])
    \<and> MIDIMessageFormatDecode (Some P_system_exclusive) heap0 200 (Some sysex_first) 5
        (Some [0xF0, 0x7D, 1, 2, 3])
        = Some (0, Some (sysex_first\<lparr>data := 200\<rparr>), heap0(200 \<mapsto> [1, 2, 3])))"
  using codec_roundtrip [of P_note_off_on note_on_60 0 3 note_on_60 "[0, 0, 0]" heap0 200]
        codec_roundtrip [of P_system_exclusive sysex_first 0 5 sysex_first "[0, 0, 0, 0, 0]"
          heap0 200]
  by (simp add: MIDIMessageFormatGetSize_def MIDIMessageFormatEncode_def fmt_defs
        size_three_bytes_def size_system_exclusive_def no_heap_encode_def encode_three_bytes_def
        encode_system_exclusive_def note_on_60_def sysex_first_def heap0_def memread_def
        memcpy_at_def)

subsection \<open>Sizes\<close>

text \<open>
  C7. The size of a system exclusive message is its payload size plus two when the fragment
  index \<open>bytes[2]\<close> is 0 and the payload size alone otherwise (in \<open>size_t\<close> arithmetic),
  also through the public \<open>MIDIMessageFormatGetSize\<close>.
\<close>

theorem size_system_exclusive_fragment:
  "size_system_exclusive (Some m) (Some s0)
     = (0, Some (if bytes m ! 2 = 0 then size_d m + 2 else size_d m))
   \<and> MIDIMessageFormatGetSize (Some P_system_exclusive) (Some m) (Some s0)
     = (0, Some (if bytes m ! 2 = 0 then size_d m + 2 else size_d m))"
  by (simp add: MIDIMessageFormatGetSize_def system_exclusive_def size_system_exclusive_def)

subsection \<open>Setters\<close>

lemma mask7f: "v < 0 \<or> 127 < v \<Longrightarrow> (v::int) AND 0x7f \<noteq> v"
  by (metis AND_upper2 and_nonnegative_int_iff not_less zero_le_numeral)

lemma mask0f: "v < 0 \<or> 127 < v \<Longrightarrow> (v::int) AND 0x0f \<noteq> v"
  by (smt (verit) AND_upper2 and_nonnegative_int_iff not_less zero_le_numeral)

lemma PROPERTY_CASE_SET_range:
  "v < 0 \<or> 127 < v \<Longrightarrow> flag \<noteq> MIDI_STATUS \<Longrightarrow>
     PROPERTY_CASE_SET flag n sz v field = (1, field)"
  by (simp add: PROPERTY_CASE_SET_def mask7f)

lemma PROPERTY_CASE_SET_L_range:
  "v < 0 \<or> 127 < v \<Longrightarrow> PROPERTY_CASE_SET_L flag n sz v field = (1, field)"
  by (simp add: PROPERTY_CASE_SET_L_def mask0f)

lemma to_byte_fail: "to_byte d i (1, b) = (1, d)"
  by (simp add: to_byte_def)

lemma set_unknown_key:
  "\<not> List.member (property_keys f) property \<Longrightarrow>
     MIDIMessageFormatSet (Some f) h d property sz val = (1, d, h)"
  by (cases f; cases property)
     (simp_all add: MIDIMessageFormatSet_def fmt_defs no_heap_set_def set_defs
        split: option.splits)

lemma set_data_byte_range:
  "data_byte_property f property \<Longrightarrow> v < 0 \<or> 127 < v \<Longrightarrow>
     MIDIMessageFormatSet (Some f) h d property sz (Some v) = (1, d, h)"
  by (cases f; cases property)
     (simp_all add: data_byte_property_def MIDIMessageFormatSet_def fmt_defs no_heap_set_def
        set_defs PROPERTY_CASE_SET_range PROPERTY_CASE_SET_L_range to_byte_fail)

text \<open>
  C8. For every format descriptor, \<open>set\<close> with a property key that is not one of the
  variant's keys returns 1, and \<open>set\<close> of a data-byte property with a value outside
  0..127 returns 1, whatever size is passed; in both cases the message data and the heap are
  returned unchanged.
\<close>

theorem set_rejects_unknown_key_and_wide_data_byte:
  "(\<not> List.member (property_keys f) property \<longrightarrow>
      MIDIMessageFormatSet (Some f) h d property sz val = (1, d, h))
   \<and> (data_byte_property f property \<and> (v < 0 \<or> 127 < v) \<longrightarrow>
      MIDIMessageFormatSet (Some f) h d property sz (Some v) = (1, d, h))"
  using set_unknown_key [of f property h d sz val] set_data_byte_range [of f property v h d sz]
  by blast

theorem set_rejects_witness:
  "(\<not> List.member (property_keys P_note_off_on) MIDI_PROGRAM
    \<and> MIDIMessageFormatSet (Some P_note_off_on) heap0 note_on_60 MIDI_PROGRAM 1 (Some 5)
        = (1, note_on_60, heap0))
   \<and> (data_byte_property P_note_off_on MIDI_KEY \<and> (127::int) < 128
    \<and> MIDIMessageFormatSet (Some P_note_off_on) heap0 note_on_60 MIDI_KEY 1 (Some 128)
        = (1, note_on_60, heap0))"
  using set_rejects_unknown_key_and_wide_data_byte
          [of P_note_off_on MIDI_PROGRAM heap0 note_on_60 1 "Some 5" 128]
        set_rejects_unknown_key_and_wide_data_byte
          [of P_note_off_on MIDI_KEY heap0 note_on_60 1 "Some 128" 128]
  by (simp add: data_byte_property_def)

text \<open>
  C10. Setting \<open>MIDI_SYSEX_DATA\<close> (with the size of a pointer) succeeds, stores the pointer
  read through \<open>value\<close> as the payload pointer, frees the old payload block exactly when the
  old pointer is not \<open>NULL\<close> and the owning flag \<open>bytes[3]\<close> is 1, and changes nothing
  else: the header bytes with the owning flag and the size stay, and no block of the heap is
  written or allocated.
\<close>

theorem set_sysex_data_stores_pointer:
  "set_system_exclusive h d MIDI_SYSEX_DATA sizeof_voidpp (Some (int p))
     = (0, d\<lparr>data := p\<rparr>, if data d \<noteq> 0 \<and> bytes d ! 3 = 1 then free h (data d) else h)
   \<and> MIDIMessageFormatSet (Some P_system_exclusive) h d MIDI_SYSEX_DATA sizeof_voidpp
        (Some (int p))
     = (0, d\<lparr>data := p\<rparr>, if data d \<noteq> 0 \<and> bytes d ! 3 = 1 then free h (data d) else h)
   \<and> size_d (d\<lparr>data := p\<rparr>) = size_d d
   \<and> bytes (d\<lparr>data := p\<rparr>) = bytes d"
  by (simp add: MIDIMessageFormatSet_def system_exclusive_def set_system_exclusive_def
        sizeof_voidpp_def)

theorem set_sysex_data_witness:
  "set_system_exclusive heap0 sysex_first MIDI_SYSEX_DATA sizeof_voidpp (Some 300)
     = (0, \<lparr> bytes = [0xF0, 0x7D, 0, 1], size_d = 3, data = 300 \<rparr>, Map.empty)
   \<and> set_system_exclusive heap0 (sysex_first\<lparr>bytes := [0xF0, 0x7D, 0, 0]\<rparr>) MIDI_SYSEX_DATA
        sizeof_voidpp (Some 300)
     = (0, \<lparr> bytes = [0xF0, 0x7D, 0, 0], size_d = 3, data = 300 \<rparr>, heap0)"
  using set_sysex_data_stores_pointer [of heap0 sysex_first 300]
        set_sysex_data_stores_pointer [of heap0 "sysex_first\<lparr>bytes := [0xF0, 0x7D, 0, 0]\<rparr>" 300]
  by (simp add: sysex_first_def heap0_def free_def)

subsection \<open>Format for a status\<close>

lemma high_nibble_f: "(0xf0::byte) \<le> b \<Longrightarrow> uint b AND 0xf0 = 0xf0"
proof -
  assume "0xf0 \<le> b"
  then have "240 \<le> uint b" by (simp add: word_le_def)
  moreover have "uint b < 256" using uint_lt2p [of b] by simp
  ultimately have "uint b = 240 \<or> uint b = 241 \<or> uint b = 242 \<or> uint b = 243
      \<or> uint b = 244 \<or> uint b = 245 \<or> uint b = 246 \<or> uint b = 247
      \<or> uint b = 248 \<or> uint b = 249 \<or> uint b = 250 \<or> uint b = 251
      \<or> uint b = 252 \<or> uint b = 253 \<or> uint b = 254 \<or> uint b = 255"
    by arith
  then show ?thesis by auto
qed

lemma detect_high:
  "(0xf0::byte) \<le> b \<Longrightarrow> MIDIMessageFormatDetect [b] = Some f \<Longrightarrow> \<not> List.member channel_voice f"
  by (auto simp: MIDIMessageFormatDetect_def formats_def fmt_defs test_defs MIDI_STATUS_defs
        high_nibble_f channel_voice_def split: if_splits)

lemma for_status_gap:
  "0x80 \<le> status \<Longrightarrow> status \<le> 0xEF \<Longrightarrow> MIDIMessageFormatForStatus status = None"
  by (simp add: MIDIMessageFormatForStatus_def word_less_nat_alt unat_of_nat)

lemma for_status_full_byte:
  assumes a: "MIDIMessageFormatForStatus status = Some f" and s: "0x80 \<le> status"
  shows "0xF0 \<le> status \<and> \<not> List.member channel_voice f"
proof -
  from a s have b: "(0xf0::byte) \<le> of_nat status"
    and d: "MIDIMessageFormatDetect [of_nat status] = Some f"
    by (auto simp: MIDIMessageFormatForStatus_def Let_def not_less split: if_splits)
  from for_status_gap [of status] a s have "\<not> status \<le> 0xEF" by auto
  with detect_high [OF b d] show ?thesis by simp
qed

text \<open>
  C9. \<open>MIDIMessageFormatForStatus\<close> returns \<open>NULL\<close> for every status from 0x80 to 0xEF.
  A status of 0x80 or more that is accepted is 0xF0 or more, and a channel voice format is
  returned only for a status below 0x80, the nibble form that is shifted left by four bits
  before detection.
\<close>

theorem for_status_rejects_full_byte_channel_status:
  "(0x80 \<le> status \<and> status \<le> 0xEF \<longrightarrow> MIDIMessageFormatForStatus status = None)
   \<and> (0x80 \<le> status \<and> MIDIMessageFormatForStatus status = Some f \<longrightarrow> 0xF0 \<le> status)
   \<and> (MIDIMessageFormatForStatus status = Some f \<and> List.member channel_voice f \<longrightarrow>
        status < 0x80)"
  using for_status_gap [of status] for_status_full_byte [of status f]
  by (auto simp: not_le [symmetric])

theorem for_status_witness:
  "((0x80::nat) \<le> 0x90 \<and> (0x90::nat) \<le> 0xEF \<and> MIDIMessageFormatForStatus 0x90 = None)
   \<and> ((0x80::nat) \<le> 0xF8 \<and> MIDIMessageFormatForStatus 0xF8 = Some P_real_time
        \<and> (0xF0::nat) \<le> 0xF8)
   \<and> (MIDIMessageFormatForStatus 0x9 = Some P_note_off_on
        \<and> List.member channel_voice P_note_off_on \<and> (0x9::nat) < 0x80)"
  using for_status_rejects_full_byte_channel_status [of "0x90" P_real_time]
        for_status_rejects_full_byte_channel_status [of "0xF8" P_real_time]
        for_status_rejects_full_byte_channel_status [of "0x9" P_note_off_on]
  by (simp add: MIDIMessageFormatForStatus_def MIDIMessageFormatDetect_def formats_def fmt_defs
        test_defs MIDI_STATUS_defs channel_voice_def)

section \<open>Properties of the AppleMIDI session engine\<close>

lemmas APPLEMIDI_defs = APPLEMIDI_PROTOCOL_SIGNATURE_def APPLEMIDI_COMMAND_INVITATION_def
  APPLEMIDI_COMMAND_INVITATION_REJECTED_def APPLEMIDI_COMMAND_INVITATION_ACCEPTED_def
  APPLEMIDI_COMMAND_ENDSESSION_def APPLEMIDI_COMMAND_SYNCHRONIZATION_def
  APPLEMIDI_COMMAND_RECEIVER_FEEDBACK_def

subsection \<open>Dispatch of incoming datagrams\<close>

text \<open>\<open>recv\<close> is asked for two bytes, so it never delivers the four the test insists on.\<close>

lemma test_applemidi_fails: "test_applemidi U pkt = -1"
proof -
  have "int (min 2 (length (p_payload pkt))) \<noteq> 4" by (simp add: min_def)
  then show ?thesis by (simp add: test_applemidi_def Let_def)
qed

lemma send_command_rtpmidi:
  "rtpmidi_received (snd (applemidi_send_command U driver fd command)) = rtpmidi_received driver"
  by (simp add: applemidi_send_command_def sendto_def Let_def)

lemma sync_rtpmidi:
  "rtpmidi_received (snd (snd (applemidi_sync U driver fd command))) = rtpmidi_received driver"
  by (simp add: applemidi_sync_def Let_def split_beta send_command_rtpmidi)

lemma respond_rtpmidi:
  "rtpmidi_received (snd (snd (applemidi_respond U driver fd command))) = rtpmidi_received driver"
  by (simp add: applemidi_respond_def Let_def split_beta send_command_rtpmidi sync_rtpmidi)

text \<open>No call of the receive tick hands a datagram to the RTP-MIDI receive path.\<close>

lemma receive_never_rtpmidi:
  "rtpmidi_received (snd (MIDIDriverAppleMIDIReceive U driver fds pending))
     = rtpmidi_received driver"
  by (simp add: MIDIDriverAppleMIDIReceive_def test_applemidi_fails Let_def split_beta
        respond_rtpmidi)

text \<open>
  C1 (the code at the failing input). An RTP-MIDI datagram without the AppleMIDI signature
  is waiting on the data socket, the control socket is idle. \<open>_test_applemidi\<close> returns
  \<open>-1\<close>, which the receive tick takes for an AppleMIDI packet: the datagram is taken by
  \<open>_applemidi_recv_command\<close>, which rejects its command code, and the tick returns 0 with
  the driver as it was; nothing reaches the RTP-MIDI receive path.
\<close>

theorem receive_rtp_datagram_not_routed:
  "test_applemidi U rtp_packet0 = -1
   \<and> fst (applemidi_recv_command U rtp_packet0 (u_command U)) = 1
   \<and> MIDIDriverAppleMIDIReceive U driver0 [rtp_socket driver0] (\<lambda>fd. rtp_packet0)
       = (0, driver0)
   \<and> rtpmidi_received driver0 = []"
  by (simp add: test_applemidi_fails MIDIDriverAppleMIDIReceive_def driver0_def rtp_packet0_def
        applemidi_recv_command_def memcpy_at_def load_be32_def of_be_def session_command_def
        APPLEMIDI_defs Let_def)

theorem receive_rtp_datagram_witness:
  "rtpmidi_received
     (snd (MIDIDriverAppleMIDIReceive U0 driver0 [rtp_socket driver0] (\<lambda>fd. rtp_packet0))) = []"
  using receive_rtp_datagram_not_routed [of U0]
  by simp

subsection \<open>Packets as they are composed\<close>

lemma length_be32: "length (be32 w) = 4"
  by (simp add: be32_def)

lemma store_be32_length: "4 * i + 4 \<le> length msg \<Longrightarrow> length (store_be32 msg i v) = length msg"
  by (simp add: store_be32_def memcpy_at_def length_be32)

lemma store_be32_take:
  "4 * i \<le> length msg \<Longrightarrow> take (4 * i + 4) (store_be32 msg i v) = take (4 * i) msg @ be32 v"
  by (simp add: store_be32_def memcpy_at_def length_be32)

lemma header16:
  assumes "length u = 32"
  shows "take 16 (store_be32 (store_be32 (store_be32 (store_be32 u 0 w0) 1 w1) 2 w2) 3 w3)
           = be32 w0 @ be32 w1 @ be32 w2 @ be32 w3"
  using assms store_be32_take [of 3 _ w3] store_be32_take [of 2 _ w2] store_be32_take [of 1 _ w1]
    store_be32_take [of 0 _ w0]
  by (simp add: store_be32_length)

lemma header24:
  assumes "length u = 32"
  shows "take 24 (store_be32 (store_be32 (store_be32 (store_be32 (store_be32 (store_be32
            u 0 w0) 1 w1) 2 w2) 3 w3) 4 w4) 5 w5)
           = be32 w0 @ be32 w1 @ be32 w2 @ be32 w3 @ be32 w4 @ be32 w5"
  using assms store_be32_take [of 5 _ w5] store_be32_take [of 4 _ w4] header16 [of u w0 w1 w2 w3]
  by (simp add: store_be32_length)

lemma sig_word_ck:
  "(word_of_int (push_bit 16 APPLEMIDI_PROTOCOL_SIGNATURE OR APPLEMIDI_COMMAND_SYNCHRONIZATION)
      :: ulong) = 0xffff434b"
  by (simp add: APPLEMIDI_defs)


lemma not_session_sync: "\<not> session_command APPLEMIDI_COMMAND_SYNCHRONIZATION"
  by (simp add: session_command_def APPLEMIDI_defs)


lemma send_sync:
  assumes "c_type c = APPLEMIDI_COMMAND_SYNCHRONIZATION" "length (u_msg U) = 32"
  shows "applemidi_send_command U driver fd c =
     (0, driver\<lparr>sent := sent driver @
        [\<lparr> d_fd = fd,
           d_payload = be32 0xffff434b @ be32 (sync_ssrc c) @ be32 (sync_count c)
                     @ be32 (sync_timestamp1 c) @ be32 (sync_timestamp2 c)
                     @ be32 (sync_timestamp3 c),
           d_addr = c_addr c, d_size = c_size c \<rparr>]\<rparr>)"
  using assms header24 [of "u_msg U"]
  by (simp add: applemidi_send_command_def Let_def not_session_sync sig_word_ck sendto_def)






subsection \<open>Clock synchronization\<close>

text \<open>
  A \<open>CK\<close> with count 2 from another \<open>ssrc\<close> is answered with count 3 and the local clock
  as \<open>t3\<close>; the session, and with it every peer's \<open>timestamp_diff\<close>, is returned as it
  was, for the offset the function computes stays in a local variable.
\<close>

lemma sync_count2_reply:
  assumes "c_type command = APPLEMIDI_COMMAND_SYNCHRONIZATION"
      and "sync_ssrc command \<noteq> ssrc (rtp_session driver)"
      and "sync_count command = 2"
      and "length (u_msg U) = 32"
  shows "applemidi_respond U driver fd command =
     (0, command\<lparr>sync_ssrc := ssrc (rtp_session driver), sync_count := 3,
                  sync_timestamp3 := timestamp (rtp_session driver)\<rparr>,
      driver\<lparr>sent := sent driver @
        [\<lparr> d_fd = fd,
           d_payload = be32 0xffff434b @ be32 (ssrc (rtp_session driver)) @ be32 3
                     @ be32 (sync_timestamp1 command) @ be32 (sync_timestamp2 command)
                     @ be32 (timestamp (rtp_session driver)),
           d_addr = c_addr command, d_size = c_size command \<rparr>]\<rparr>)"
  using assms
  by (simp add: applemidi_respond_def applemidi_sync_def Let_def RTPSessionGetSSRC_def
        RTPSessionGetTimestamp_def send_sync APPLEMIDI_defs)

lemma sync_keeps_session:
  "rtp_session (snd (snd (applemidi_sync U driver fd command))) = rtp_session driver"
  by (simp add: applemidi_sync_def applemidi_send_command_def sendto_def Let_def split_beta)

text \<open>
  C2 (the code at the failing input). The peer of \<open>ssrc\<close> 7 sends count 2 with \<open>t1 = 10\<close>,
  \<open>t2 = 50\<close>, \<open>t3 = 30\<close> while the local clock is at 30, so the offset
  \<open>(t3 - t1) / 2 + (t2 - t3)\<close> is 30. The engine answers with count 3, and the peer's
  \<open>timestamp_diff\<close> is 0 before and after: the call that would store the offset is
  commented out in the source.
\<close>

theorem sync_count2_leaves_timestamp_diff:
  "map timestamp_diff (peers (rtp_session driver0)) = [0]
   \<and> (sync_timestamp3 ck2 - sync_timestamp1 ck2) div 2
       + (sync_timestamp2 ck2 - sync_timestamp3 ck2) = 30
   \<and> fst (applemidi_respond U0 driver0 4 ck2) = 0
   \<and> map d_payload (sent (snd (snd (applemidi_respond U0 driver0 4 ck2))))
       = [[0xff, 0xff, 0x43, 0x4b,  0, 0, 0, 1,  0, 0, 0, 3,
           0, 0, 0, 10,  0, 0, 0, 50,  0, 0, 0, 30]]
   \<and> map timestamp_diff (peers (rtp_session (snd (snd (applemidi_respond U0 driver0 4 ck2)))))
       = [0]"
  by (simp add: applemidi_respond_def applemidi_sync_def applemidi_send_command_def sendto_def
        ck2_def command0_def driver0_def peer0_def U0_def APPLEMIDI_defs session_command_def
        Let_def RTPSessionGetSSRC_def RTPSessionGetTimestamp_def store_be32_def be32_def
        memcpy_at_def)

text \<open>
  C3 (as stated: a \<open>CK\<close> that carries the local \<open>ssrc\<close> is discarded, no reply is sent).
  The driver has sent nothing; after the echo is processed it has sent a packet.
\<close>

theorem sync_echo_counterexample:
  "sent driver0 = []
   \<and> sync_ssrc ck_echo = ssrc (rtp_session driver0)
   \<and> map d_payload (sent (snd (snd (applemidi_respond U0 driver0 4 ck_echo))))
       = [[0xff, 0xff, 0x43, 0x4b,  0, 0, 0, 1,  0, 0, 0, 1,
           0, 0, 0, 30,  0, 0, 0, 0,  0, 0, 0, 0]]
   \<and> sent (snd (snd (applemidi_respond U0 driver0 4 ck_echo))) \<noteq> sent driver0"
  by (simp add: applemidi_respond_def applemidi_sync_def applemidi_send_command_def sendto_def
        ck_echo_def command0_def driver0_def peer0_def U0_def APPLEMIDI_defs session_command_def
        Let_def RTPSessionGetSSRC_def RTPSessionGetTimestamp_def store_be32_def be32_def
        memcpy_at_def)

text \<open>
  C3 (amended). A \<open>CK\<close> that carries the local \<open>ssrc\<close> is treated as the start of a
  synchronization: the engine returns 0, sends one \<open>CK\<close> to the address of the command,
  with the local \<open>ssrc\<close>, count 1 and \<open>t1\<close> the current value of the local clock (\<open>t2\<close> and
  \<open>t3\<close> as received), and leaves the session with its peers as it was.
\<close>

theorem sync_echo_restarts_and_keeps_peers:
  assumes "c_type command = APPLEMIDI_COMMAND_SYNCHRONIZATION"
      and "sync_ssrc command = ssrc (rtp_session driver)"
      and "length (u_msg U) = 32"
  shows "applemidi_respond U driver fd command =
     (0, command\<lparr>c_type := APPLEMIDI_COMMAND_SYNCHRONIZATION,
                  sync_ssrc := ssrc (rtp_session driver), sync_count := 1,
                  sync_timestamp1 := timestamp (rtp_session driver)\<rparr>,
      driver\<lparr>sent := sent driver @
        [\<lparr> d_fd = fd,
           d_payload = be32 0xffff434b @ be32 (ssrc (rtp_session driver)) @ be32 1
                     @ be32 (timestamp (rtp_session driver)) @ be32 (sync_timestamp2 command)
                     @ be32 (sync_timestamp3 command),
           d_addr = c_addr command, d_size = c_size command \<rparr>]\<rparr>)
   \<and> rtp_session (snd (snd (applemidi_respond U driver fd command))) = rtp_session driver"
  using assms
  by (simp add: applemidi_respond_def applemidi_sync_def Let_def RTPSessionGetSSRC_def
        RTPSessionGetTimestamp_def send_sync APPLEMIDI_defs)

theorem sync_echo_witness:
  "c_type ck_echo = APPLEMIDI_COMMAND_SYNCHRONIZATION
   \<and> sync_ssrc ck_echo = ssrc (rtp_session driver0)
   \<and> length (u_msg U0) = 32
   \<and> rtp_session (snd (snd (applemidi_respond U0 driver0 4 ck_echo))) = rtp_session driver0
   \<and> map d_addr (sent (snd (snd (applemidi_respond U0 driver0 4 ck_echo))))
       = [peer_addr peer0]"
  using sync_echo_restarts_and_keeps_peers [of ck_echo driver0 U0 4]
  by (simp add: ck_echo_def command0_def driver0_def U0_def APPLEMIDI_defs)

text \<open>
  C4 (as stated: the first \<open>CK\<close> of a synchronization carries count 0). With the clock at
  30 and the uninitialised command all zero, the packet sent carries count 1 in its third
  word.
\<close>

theorem start_sync_counterexample:
  "map d_payload (sent (snd (applemidi_start_sync U0 driver0 4 peer0)))
     = [[0xff, 0xff, 0x43, 0x4b,  0, 0, 0, 1,  0, 0, 0, 1,
         0, 0, 0, 30,  0, 0, 0, 0,  0, 0, 0, 0]]
   \<and> load_be32 (d_payload (hd (sent (snd (applemidi_start_sync U0 driver0 4 peer0))))) 2 = 1
   \<and> load_be32 (d_payload (hd (sent (snd (applemidi_start_sync U0 driver0 4 peer0))))) 2 \<noteq> 0"
  by (simp add: applemidi_start_sync_def applemidi_init_addr_with_peer_def applemidi_sync_def
        applemidi_send_command_def sendto_def U0_def command0_def driver0_def peer0_def
        APPLEMIDI_defs session_command_def Let_def RTPSessionGetSSRC_def
        RTPSessionGetTimestamp_def store_be32_def load_be32_def of_be_def be32_def memcpy_at_def)

text \<open>
  C4 (amended). When synchronization is started (\<open>start_sync\<close>), and the uninitialised
  command it works on does not read as a \<open>CK\<close> from another \<open>ssrc\<close>, the engine returns 0
  and sends one \<open>CK\<close> that carries the local \<open>ssrc\<close>, count 1 and \<open>timestamp1\<close> equal to
  the current value of the local clock. (The theorem also records what the packet holds as
  \<open>t2\<close> and \<open>t3\<close> and where it goes: whatever the uninitialised memory held.)
\<close>

theorem start_sync_sends_count1:
  assumes "c_type (u_command U) \<noteq> APPLEMIDI_COMMAND_SYNCHRONIZATION
            \<or> sync_ssrc (u_command U) = ssrc (rtp_session driver)"
      and "length (u_msg U) = 32"
  shows "applemidi_start_sync U driver fd peer =
     (0, driver\<lparr>sent := sent driver @
        [\<lparr> d_fd = fd,
           d_payload = be32 0xffff434b @ be32 (ssrc (rtp_session driver)) @ be32 1
                     @ be32 (timestamp (rtp_session driver))
                     @ be32 (sync_timestamp2 (u_command U))
                     @ be32 (sync_timestamp3 (u_command U)),
           d_addr = memcpy_at (c_addr (u_command U)) 0 (take (peer_size peer) (u_stack U)),
           d_size = peer_size peer \<rparr>]\<rparr>)"
  using assms
  by (auto simp add: applemidi_start_sync_def applemidi_init_addr_with_peer_def
        applemidi_sync_def Let_def RTPSessionGetSSRC_def RTPSessionGetTimestamp_def send_sync)

theorem start_sync_witness:
  "c_type (u_command U0) \<noteq> APPLEMIDI_COMMAND_SYNCHRONIZATION
   \<and> length (u_msg U0) = 32
   \<and> fst (applemidi_start_sync U0 driver0 4 peer0) = 0
   \<and> map d_fd (sent (snd (applemidi_start_sync U0 driver0 4 peer0))) = [4]
   \<and> map (take 16 \<circ> d_payload) (sent (snd (applemidi_start_sync U0 driver0 4 peer0)))
       = [[0xff, 0xff, 0x43, 0x4b,  0, 0, 0, 1,  0, 0, 0, 1,  0, 0, 0, 30]]"
  using start_sync_sends_count1 [of U0 driver0 4 peer0]
  by (simp add: U0_def command0_def driver0_def APPLEMIDI_defs be32_def)

subsection \<open>Invitations\<close>




end
